theory Spec2Isabelle
  imports Main "HOL-Library.Word"
begin

unbundle bit_operations_syntax

section \<open>Errors of the trace library\<close>

text \<open>
  The Go code reports failures as \<open>error\<close> values built by the \<open>trace\<close> library. An
  error carries a kind (the Go type of the wrapped error), a format string and its
  arguments. \<open>trace.Wrap\<close> adds a message and keeps the original error, so that the kind
  tests \<open>trace.IsNotFound\<close> and \<open>trace.IsAlreadyExists\<close> look through it.
  \<open>trace.NewAggregate\<close> collects several errors into one; it is none of the kinds.
  A returned Go \<open>error\<close> is an \<open>error option\<close> here: \<open>None\<close> is \<open>nil\<close>.
\<close>

datatype errKind =
    AlreadyExistsError
  | NotFoundError
  | BadParameterError
  | AccessDeniedError
  | ConnectionProblemError
  | CompareFailedError
  | OtherError

datatype error =
    TraceErr errKind string "string list"
  | Wrap error string
  | Aggregate "error list"

definition BadParameter :: "string \<Rightarrow> string list \<Rightarrow> error" where
  "BadParameter fmt args = TraceErr BadParameterError fmt args"

fun IsAlreadyExists :: "error \<Rightarrow> bool" where
  "IsAlreadyExists (TraceErr k fmt args) = (k = AlreadyExistsError)"
| "IsAlreadyExists (Wrap e msg) = IsAlreadyExists e"
| "IsAlreadyExists (Aggregate es) = False"

fun IsNotFound :: "error \<Rightarrow> bool" where
  "IsNotFound (TraceErr k fmt args) = (k = NotFoundError)"
| "IsNotFound (Wrap e msg) = IsNotFound e"
| "IsNotFound (Aggregate es) = False"

text \<open>
  \<open>trace.NewAggregate(errors...)\<close>: \<open>nil\<close> for no errors, the aggregate otherwise. The
  callers below append only non-nil errors, so the list holds no \<open>nil\<close> to filter.
\<close>

definition NewAggregate :: "error list \<Rightarrow> error option" where
  "NewAggregate errors = (if errors = [] then None else Some (Aggregate errors))"

section \<open>lib/validate: subnets and cluster configuration\<close>

subsection \<open>Networks of the Go standard library\<close>

text \<open>
  A \<open>net.IPNet\<close> is an address and a mask, both byte slices. \<open>net.ParseCIDR\<close> belongs to
  the standard library and is a parameter of \<open>KubernetesSubnets\<close> below (a string to a
  network, or nothing when the string does not parse). \<open>Size\<close> and \<open>Contains\<close> follow
  the library: \<open>Size\<close> counts the leading one bits of a canonical mask and gives
  \<open>(0, 0)\<close> for any other; \<open>Contains\<close> compares the masked bytes of two addresses of
  the same length.
\<close>

record IPNet =
  IP :: "8 word list"
  Mask :: "8 word list"

text \<open>
  The inner loop of \<open>simpleMaskLength\<close>, \<open>for v&0x80 != 0 { n++; v <<= 1 }\<close>: count and
  shift out the leading one bits of a byte.
\<close>

function leadingOnes :: "8 word \<Rightarrow> int \<Rightarrow> int \<times> 8 word" where
  "leadingOnes v n = (if v AND 128 \<noteq> 0 then leadingOnes (push_bit 1 v) (n + 1) else (n, v))"
  by pat_completeness auto
termination
proof (relation "measure (\<lambda>(v, n). unat v)")
  show "wf (measure (\<lambda>(v :: 8 word, n :: int). unat v))" by simp
next
  fix v :: "8 word" and n :: int
  assume "v AND 128 \<noteq> 0"
  then obtain k where "bit (v AND 128) k" by (auto simp: bit_eq_iff)
  then have "bit v k" and "bit (128 :: 8 word) k" by (simp_all add: bit_and_iff)
  have "(128 :: 8 word) = push_bit 7 1" by simp
  with \<open>bit (128 :: 8 word) k\<close> have "k = 7" by (simp only: bit_push_bit_iff bit_1_iff) auto
  with \<open>bit v k\<close> have "bit (unat v) 7" by (simp add: bit_unsigned_iff)
  then have "\<not> unat v < 2 ^ 7" by (auto simp: bit_iff_odd_drop_bit drop_bit_eq_div)
  then have h: "128 \<le> unat v" by simp
  have b: "unat v < 256" using unsigned_less [of v, where ?'a = nat] by simp
  have e: "unat (push_bit 1 v) = (2 * unat v) mod 256"
    by (simp add: unat_word_ariths mult.commute)
  have "(2 * unat v) mod 256 = (2 * unat v - 256) mod 256"
    using h by (simp add: le_mod_geq)
  also have "\<dots> = 2 * unat v - 256" using b by simp
  finally have "unat (push_bit 1 v) < unat v" using e h b by linarith
  then show "((push_bit 1 v, n + 1), (v, n)) \<in> measure (\<lambda>(v :: 8 word, n :: int). unat v)"
    by simp
qed

declare leadingOnes.simps [simp del]

text \<open>\<open>simpleMaskLength\<close>: \<open>-1\<close> when the mask is not ones followed by zeros.\<close>

fun simpleMaskLength :: "8 word list \<Rightarrow> int \<Rightarrow> int" where
  "simpleMaskLength [] n = n"
| "simpleMaskLength (v # rest) n =
     (if v = 255 then simpleMaskLength rest (n + 8)
      else (case leadingOnes v n of
              (n', v') \<Rightarrow>
                if v' \<noteq> 0 then - 1
                else if list_ex (\<lambda>b. b \<noteq> 0) rest then - 1
                else n'))"

definition Size :: "8 word list \<Rightarrow> int \<times> int" where
  "Size m =
     (let ones = simpleMaskLength m 0; bits = int (length m) * 8
      in if ones = - 1 then (0, 0) else (ones, bits))"

text \<open>\<open>IP.To4\<close>: the four bytes of an IPv4 address, \<open>None\<close> (\<open>nil\<close>) for any other.\<close>

definition To4 :: "8 word list \<Rightarrow> 8 word list option" where
  "To4 ip =
     (if length ip = 4 then Some ip
      else if length ip = 16 \<and> list_all (\<lambda>b. b = 0) (take 10 ip)
              \<and> ip ! 10 = 255 \<and> ip ! 11 = 255
      then Some (drop 12 ip)
      else None)"

text \<open>\<open>networkNumberAndMask\<close>; the pair of \<open>nil\<close>s is the pair of empty slices.\<close>

definition networkNumberAndMask :: "IPNet \<Rightarrow> 8 word list \<times> 8 word list" where
  "networkNumberAndMask n =
     (case (case To4 (IP n) of
              Some x \<Rightarrow> Some x
            | None \<Rightarrow> if length (IP n) \<noteq> 16 then None else Some (IP n)) of
        None \<Rightarrow> ([], [])
      | Some ip \<Rightarrow>
          (let m = Mask n in
           if length m = 4 then (if length ip \<noteq> 4 then ([], []) else (ip, m))
           else if length m = 16 then (if length ip = 4 then (ip, drop 12 m) else (ip, m))
           else ([], [])))"

definition Contains :: "IPNet \<Rightarrow> 8 word list \<Rightarrow> bool" where
  "Contains n ip0 =
     (case networkNumberAndMask n of
        (nn, m) \<Rightarrow>
          (let ip = (case To4 ip0 of Some x \<Rightarrow> x | None \<Rightarrow> ip0); l = length ip
           in if l \<noteq> length nn then False
              else list_all (\<lambda>i. (nn ! i) AND (m ! i) = (ip ! i) AND (m ! i)) [0..<l]))"

subsection \<open>The IPv4 part of net.ParseCIDR\<close>

text \<open>
  \<open>ParseCIDR4\<close> is \<open>net.ParseCIDR\<close> on the strings whose address is written in dotted
  decimal: \<open>a.b.c.d/n\<close> with four fields of decimal digits, none with a leading zero,
  each at most 255, and a prefix length of decimal digits, at most 32. It stands in
  for the library where the theorems below are run on concrete subnets; an IPv6 string,
  which the library also accepts, is not read by it.
\<close>

definition isDigit :: "char \<Rightarrow> bool" where
  "isDigit c \<longleftrightarrow> (48 :: nat) \<le> of_char c \<and> of_char c \<le> (57 :: nat)"

fun decimal :: "string \<Rightarrow> nat \<Rightarrow> nat" where
  "decimal [] n = n"
| "decimal (c # cs) n = decimal cs (n * 10 + (of_char c - 48))"

text \<open>\<open>dtoi\<close> over a whole string: a value only when every byte is a digit and there is one.\<close>

definition dtoi :: "string \<Rightarrow> nat option" where
  "dtoi s = (if s \<noteq> [] \<and> list_all isDigit s then Some (decimal s 0) else None)"

fun splitOn :: "char \<Rightarrow> string \<Rightarrow> string list" where
  "splitOn sep [] = [[]]"
| "splitOn sep (c # cs) =
     (if c = sep then [] # splitOn sep cs
      else (case splitOn sep cs of
              [] \<Rightarrow> [[c]]
            | f # fs \<Rightarrow> (c # f) # fs))"

definition octet :: "string \<Rightarrow> 8 word option" where
  "octet f =
     (case dtoi f of
        None \<Rightarrow> None
      | Some v \<Rightarrow>
          if 1 < length f \<and> hd f = CHR ''0'' then None
          else if v > 255 then None
          else Some (of_nat v))"

definition parseIPv4 :: "string \<Rightarrow> 8 word list option" where
  "parseIPv4 addr =
     (let fields = map octet (splitOn (CHR ''.'') addr)
      in if length fields = 4 \<and> list_all (\<lambda>f. f \<noteq> None) fields
         then Some (map the fields) else None)"

fun CIDRMask :: "nat \<Rightarrow> nat \<Rightarrow> 8 word list" where
  "CIDRMask n 0 = []"
| "CIDRMask n (Suc l) =
     (if 8 \<le> n then 255 # CIDRMask (n - 8) l
      else NOT (drop_bit n 255) # CIDRMask 0 l)"

definition ParseCIDR4 :: "string \<Rightarrow> IPNet option" where
  "ParseCIDR4 s =
     (case splitOn (CHR ''/'') s of
        [addr, len] \<Rightarrow>
          (case (parseIPv4 addr, dtoi len) of
             (Some ip, Some n) \<Rightarrow>
               if n > 32 then None
               else (let m = CIDRMask n 4
                     in Some \<lparr>IP = map (\<lambda>(a, b). a AND b) (zip ip m), Mask = m\<rparr>)
           | _ \<Rightarrow> None)
      | _ \<Rightarrow> None)"

subsection \<open>KubernetesSubnets (lib/validate/net.go)\<close>

text \<open>The pod subnet: \<open>Inr None\<close> when the string is empty and \<open>podNet\<close> stays \<open>nil\<close>.\<close>

definition checkPodCIDR :: "(string \<Rightarrow> IPNet option) \<Rightarrow> string \<Rightarrow> error + IPNet option" where
  "checkPodCIDR ParseCIDR podCIDR =
     (if podCIDR \<noteq> [] then
        (case ParseCIDR podCIDR of
           None \<Rightarrow> Inl (BadParameter ''invalid pod subnet: %q'' [podCIDR])
         | Some podNet \<Rightarrow>
             (case Size (Mask podNet) of
                (ones, bits) \<Rightarrow>
                  if ones > 16
                  then Inl (BadParameter ''pod subnet should be a minimum of /16: %q'' [podCIDR])
                  else Inr (Some podNet)))
      else Inr None)"

definition checkServiceCIDR :: "(string \<Rightarrow> IPNet option) \<Rightarrow> string \<Rightarrow> error + IPNet option" where
  "checkServiceCIDR ParseCIDR serviceCIDR =
     (if serviceCIDR \<noteq> [] then
        (case ParseCIDR serviceCIDR of
           None \<Rightarrow> Inl (BadParameter ''invalid service subnet: %q'' [serviceCIDR])
         | Some serviceNet \<Rightarrow> Inr (Some serviceNet))
      else Inr None)"

definition KubernetesSubnets :: "(string \<Rightarrow> IPNet option) \<Rightarrow> string \<Rightarrow> string \<Rightarrow> error option" where
  "KubernetesSubnets ParseCIDR podCIDR serviceCIDR =
     (case checkPodCIDR ParseCIDR podCIDR of
        Inl err \<Rightarrow> Some err
      | Inr podNet \<Rightarrow>
          (case checkServiceCIDR ParseCIDR serviceCIDR of
             Inl err \<Rightarrow> Some err
           | Inr serviceNet \<Rightarrow>
               (case (podNet, serviceNet) of
                  (Some pn, Some sn) \<Rightarrow>
                    if Contains pn (IP sn) \<or> Contains sn (IP pn)
                    then Some (BadParameter
                      ''pod subnet %q and service subnet %q should not overlap''
                      [podCIDR, serviceCIDR])
                    else None
                | _ \<Rightarrow> None)))"

subsection \<open>ClusterConfiguration\<close>

text \<open>
  \<open>clusterconfig.Global\<close> with the fields the validation reads; a configuration resource
  is read through its getter \<open>GetGlobalConfig\<close>. \<open>Global.IsEmpty\<close> is declared in the
  package \<open>clusterconfig\<close> and is a parameter here.
\<close>

record Global =
  CloudProvider :: string
  CloudConfig :: string
  PodCIDR :: string
  ServiceCIDR :: string

record clusterconfig =
  GetGlobalConfig :: Global

definition isCloudConfigEmpty :: "Global \<Rightarrow> bool" where
  "isCloudConfigEmpty global \<longleftrightarrow> CloudProvider global = [] \<and> CloudConfig global = []"

definition ClusterConfiguration ::
  "(string \<Rightarrow> IPNet option) \<Rightarrow> (Global \<Rightarrow> bool) \<Rightarrow> clusterconfig \<Rightarrow> clusterconfig \<Rightarrow> error option"
where
  "ClusterConfiguration ParseCIDR IsEmpty existing upd =
     (let newGlobalConfig = GetGlobalConfig upd;
          globalConfig = GetGlobalConfig existing
      in
      if \<not> isCloudConfigEmpty newGlobalConfig
         \<and> CloudConfig newGlobalConfig \<noteq> [] \<and> CloudProvider newGlobalConfig = []
      then Some (BadParameter ''cloud provider is required when updating cloud configuration'' [])
      else if IsEmpty newGlobalConfig
      then Some (BadParameter ''provided cluster configuration is empty'' [])
      else if isCloudConfigEmpty globalConfig \<and> \<not> isCloudConfigEmpty newGlobalConfig
      then Some (BadParameter
        ''cannot change cloud configuration: cluster does not have cloud provider configured'' [])
      else if CloudProvider newGlobalConfig \<noteq> []
              \<and> CloudProvider globalConfig \<noteq> CloudProvider newGlobalConfig
      then Some (BadParameter ''changing cloud provider is not supported (%q -> %q)''
        [CloudProvider newGlobalConfig, CloudProvider globalConfig])
      else if CloudProvider globalConfig = [] \<and> CloudConfig newGlobalConfig \<noteq> []
      then Some (BadParameter
        ''cannot set cloud configuration: cluster does not have cloud provider configured'' [])
      else if PodCIDR newGlobalConfig = PodCIDR globalConfig
      then Some (BadParameter
        ''specified pod subnet (%v) is the same as existing pod subnet''
        [PodCIDR newGlobalConfig])
      else if ServiceCIDR newGlobalConfig = ServiceCIDR globalConfig
      then Some (BadParameter
        ''specified service subnet (%v) is the same as existing service subnet''
        [ServiceCIDR newGlobalConfig])
      else
        (case (if PodCIDR newGlobalConfig \<noteq> [] then
                 KubernetesSubnets ParseCIDR (PodCIDR newGlobalConfig)
                   (if ServiceCIDR newGlobalConfig = [] then ServiceCIDR globalConfig
                    else ServiceCIDR newGlobalConfig)
               else None) of
           Some err \<Rightarrow> Some (Wrap err [])
         | None \<Rightarrow>
             (case (if ServiceCIDR newGlobalConfig \<noteq> [] then
                      KubernetesSubnets ParseCIDR
                        (if PodCIDR newGlobalConfig = [] then PodCIDR globalConfig
                         else PodCIDR newGlobalConfig)
                        (ServiceCIDR newGlobalConfig)
                    else None) of
                Some err \<Rightarrow> Some (Wrap err [])
              | None \<Rightarrow> None)))"

section \<open>The update init phase (package phases)\<close>

subsection \<open>Data of the storage, pack and fsm packages\<close>

text \<open>
  The structs the phase reads and writes, with the fields it touches and their
  neighbours. A pointer that may be \<open>nil\<close> is an \<open>option\<close>; a Go map of labels is an
  association list.
\<close>

type_synonym labels = "(string \<times> string) list"

record Locator =
  Repository :: string
  Name :: string
  Version :: string

record PackageEnvelope =
  env_Locator :: Locator
  RuntimeLabels :: labels

record LabelUpdate =
  upd_Locator :: Locator
  Add :: labels
  Remove :: "string list"

record OSUser =
  user_Name :: string
  UID :: string
  GID :: string

record DNSConfig =
  Addrs :: "string list"
  Port :: int

record DockerConfig =
  StorageDriver :: string
  Args :: "string list"

record Server =
  AdvertiseIP :: string
  Hostname :: string
  Nodename :: string
  Role :: string
  ClusterRole :: string

text \<open>The zero value of \<open>storage.Server\<close>, which a Go map gives for a missing key.\<close>

definition zeroServer :: Server where
  "zeroServer = \<lparr>AdvertiseIP = [], Hostname = [], Nodename = [], Role = [], ClusterRole = []\<rparr>"

record ClusterState =
  cs_Servers :: "Server list"
  Docker :: DockerConfig

text \<open>\<open>storage.Site\<close>, the cluster record of the backend.\<close>

record Site =
  site_AccountID :: string
  site_Domain :: string
  ServiceUser :: OSUser
  site_DNSConfig :: DNSConfig
  ClusterState :: ClusterState

text \<open>\<open>ops.Site\<close> and \<open>ops.SiteOperation\<close>, as the operator reports them.\<close>

record ops_Site =
  AccountID :: string
  Domain_name :: string

record SiteOperation =
  ID :: string
  SiteDomain :: string
  InstallDocker :: DockerConfig

record Peer =
  peer_ID :: string
  AdvertiseAddr :: string

record RuntimePackage =
  Installed :: Locator
  Update_to :: "Locator option"

text \<open>\<open>storage.UpdateServer\<close> embeds \<open>storage.Server\<close>.\<close>

record UpdateServer = Server +
  Runtime :: RuntimePackage

record UpdateOperationData =
  upd_Servers :: "UpdateServer list"

record OperationPhaseData =
  Package :: "Locator option"
  InstalledPackage :: "Locator option"
  Update :: "UpdateOperationData option"

record OperationPhase =
  phase_ID :: string
  Data :: "OperationPhaseData option"

record OperationPlan =
  OperationID :: string
  plan_Servers :: "Server list"
  plan_DNSConfig :: DNSConfig

record ExecutorParams =
  Plan :: OperationPlan
  Phase :: OperationPhase

text \<open>
  \<open>storage.User\<close> as \<open>storage.NewUser(email, UserSpecV2{AccountID, ClusterName})\<close>
  builds it.
\<close>

record User =
  email :: string
  spec_AccountID :: string
  spec_ClusterName :: string

definition NewUser :: "string \<Rightarrow> string \<Rightarrow> string \<Rightarrow> User" where
  "NewUser e account cluster = \<lparr>email = e, spec_AccountID = account, spec_ClusterName = cluster\<rparr>"

text \<open>The user \<open>install.GetOrCreateServiceUser\<close> returns: a name and numeric ids.\<close>

record systeminfo_User =
  sys_Name :: string
  sys_UID :: int
  sys_GID :: int

text \<open>
  An application with its manifest, kept as the text of the manifest document: the
  phase stores both and reads neither.
\<close>

type_synonym Manifest = string

record Application =
  app_Package :: Locator
  app_Manifest :: Manifest

record FileInfo =
  IsDir :: bool

subsection \<open>strconv.Itoa\<close>

function digits :: "nat \<Rightarrow> string" where
  "digits n = (if n < 10 then [char_of (48 + n)] else digits (n div 10) @ [char_of (48 + n mod 10)])"
  by pat_completeness auto
termination
  by (relation "measure (\<lambda>n. n)") auto

declare digits.simps [simp del]

definition Itoa :: "int \<Rightarrow> string" where
  "Itoa i = (if i < 0 then CHR ''-'' # digits (nat (- i)) else digits (nat i))"

subsection \<open>Collaborators\<close>

text \<open>
  The phase works through interfaces that other packages implement: the cluster
  backend, the package service, the users service, the operator, and functions of other
  packages. Each is a parameter here. Everything a collaborator can observe or change
  is the world \<open>'w\<close>; a call that only reads is a function of the world, a call that may
  change something returns the new world beside its result. Where the phase drops a
  returned value (the site of \<open>UpdateSite\<close>, the user of \<open>CreateClusterAdminAgent\<close>) the
  call returns its error only. Nothing is assumed about what a collaborator does, so a
  statement proved for every collaborator holds for the real ones and for every mock.
\<close>

record 'w Backend =
  GetLocalSite :: "string \<Rightarrow> 'w \<Rightarrow> error + Site"
  UpdateSite :: "Site \<Rightarrow> 'w \<Rightarrow> error option \<times> 'w"
  GetPeers :: "'w \<Rightarrow> error + Peer list"
  DeletePeer :: "string \<Rightarrow> 'w \<Rightarrow> error option \<times> 'w"

record 'w PackageService =
  GetPackages :: "string \<Rightarrow> 'w \<Rightarrow> error + PackageEnvelope list"
  DeletePackage :: "Locator \<Rightarrow> 'w \<Rightarrow> error option \<times> 'w"
  UpdatePackageLabels :: "Locator \<Rightarrow> labels \<Rightarrow> string list \<Rightarrow> 'w \<Rightarrow> error option \<times> 'w"

record 'w Identity =
  CreateClusterAdminAgent :: "string \<Rightarrow> User \<Rightarrow> 'w \<Rightarrow> error option \<times> 'w"

record 'w Operator =
  op_GetLocalSite :: "'w \<Rightarrow> error + ops_Site"
  GetSiteOperation :: "string \<Rightarrow> 'w \<Rightarrow> error + SiteOperation"
  GetCompletedInstallOperation :: "ops_Site \<Rightarrow> 'w \<Rightarrow> error + SiteOperation"

record 'w Applications =
  GetApp :: "Locator \<Rightarrow> 'w \<Rightarrow> error + Application"

text \<open>
  Constants and pure functions of the packages \<open>pack\<close>, \<open>loc\<close>, \<open>storage\<close>, \<open>update\<close>,
  \<open>utils\<close>, \<open>checks\<close>, \<open>defaults\<close> and \<open>constants\<close>.
\<close>

record lib =
  SystemAccountID :: string
  ServiceUserID :: string
  ServiceGroupID :: string
  OperationIDLabel :: string
  InstalledLabel :: string
  PurposeLabel :: string
  PurposeTeleportNodeConfig :: string
  TeleportNodeConfigPackage :: string
  InstalledLabels :: labels
  RuntimePackageLabels :: labels
  TeleportNodeConfigPackageLabels :: labels
  TeleportLegacyNodeConfigPackageLabels :: labels
  LegacyPlanetMaster :: Locator
  LegacyPlanetNode :: Locator
  IsLegacyRuntimePackage :: "Locator \<Rightarrow> bool"
  CombineLabels :: "labels \<Rightarrow> labels \<Rightarrow> labels"
  HasLabel :: "PackageEnvelope \<Rightarrow> string \<Rightarrow> string \<Rightarrow> bool"
  HasLabels :: "PackageEnvelope \<Rightarrow> labels \<Rightarrow> bool"
  OSUser_IsEmpty :: "OSUser \<Rightarrow> bool"
  DNSConfig_IsEmpty :: "DNSConfig \<Rightarrow> bool"
  DockerConfig_IsEmpty :: "DockerConfig \<Rightarrow> bool"
  ClusterAdminAgent :: "string \<Rightarrow> string"
  SplitServers :: "UpdateServer list \<Rightarrow> UpdateServer list \<times> UpdateServer list"
  ObjectPeerID :: "UpdateServer \<Rightarrow> string"
  OperationKey :: "OperationPlan \<Rightarrow> string"
  existingDockerConfig :: "Application \<Rightarrow> DockerConfig \<Rightarrow> DockerConfig"
  GravityUpdateDir :: "string \<Rightarrow> string"
  Join :: "string \<Rightarrow> string \<Rightarrow> string"
  IsNotExist :: "error \<Rightarrow> bool"
  ConvertSystemError :: "error \<Rightarrow> error"

text \<open>
  Functions of other packages and of the operating system that read or change the
  world: \<open>rpc.InitCredentials\<close>, \<open>install.GetOrCreateServiceUser\<close>, the package
  searches of \<open>pack\<close>, \<open>state.GetStateDir\<close>, \<open>os.Stat\<close> and \<open>os.RemoveAll\<close>.
\<close>

record 'w sys =
  InitCredentials :: "'w PackageService \<Rightarrow> 'w \<Rightarrow> (error + Locator) \<times> 'w"
  GetOrCreateServiceUser :: "string \<Rightarrow> string \<Rightarrow> 'w \<Rightarrow> (error + systeminfo_User) \<times> 'w"
  FindInstalledConfigPackage :: "'w PackageService \<Rightarrow> Locator \<Rightarrow> 'w \<Rightarrow> error + Locator"
  FindConfigPackage :: "'w PackageService \<Rightarrow> Locator \<Rightarrow> 'w \<Rightarrow> error + Locator"
  FindPackage :: "'w PackageService \<Rightarrow> (PackageEnvelope \<Rightarrow> bool) \<Rightarrow> 'w \<Rightarrow> error + PackageEnvelope"
  FindLatestPackageCustom ::
    "'w PackageService \<Rightarrow> string \<Rightarrow> (PackageEnvelope \<Rightarrow> bool) \<Rightarrow> 'w \<Rightarrow> error + Locator"
  FindSecretsPackage :: "'w PackageService \<Rightarrow> 'w \<Rightarrow> error + Locator"
  FindInstalledPackage :: "'w PackageService \<Rightarrow> Locator \<Rightarrow> 'w \<Rightarrow> error + Locator"
  GetStateDir :: "'w \<Rightarrow> error + string"
  Stat :: "string \<Rightarrow> 'w \<Rightarrow> error + FileInfo"
  RemoveAll :: "string \<Rightarrow> 'w \<Rightarrow> error option \<times> 'w"

subsection \<open>The executors\<close>

text \<open>
  The two executor structs. The embedded logger is left out: logging changes nothing that
  the properties below speak about.
\<close>

record 'w updatePhaseInitServer =
  server :: UpdateServer
  localPackages :: "'w PackageService"
  clusterName :: string

record 'w updatePhaseInit =
  Backend :: "'w Backend"
  LocalBackend :: "'w Backend"
  Operator :: "'w Operator"
  Packages :: "'w PackageService"
  Users :: "'w Identity"
  Cluster :: ops_Site
  Operation :: SiteOperation
  Servers :: "Server list"
  updateManifest :: Manifest
  installedApp :: Application
  existingDocker :: DockerConfig
  existingDNS :: DNSConfig
  init :: "'w updatePhaseInitServer option"
  existingPeers :: "string list"

text \<open>
  What a constructor gives: the executor, an error, or a panic of the Go runtime (a
  \<open>nil\<close> pointer dereferenced).
\<close>

datatype 'a construction = Built 'a | Failed error | Panic

definition clusterPeers :: "lib \<Rightarrow> UpdateServer list \<Rightarrow> string list" where
  "clusterPeers L servers =
     (case SplitServers L servers of (masters, nodes) \<Rightarrow> map (ObjectPeerID L) masters)"

text \<open>
  \<open>NewUpdatePhaseInitLeader\<close>. The two checks come first; the queries to the operator
  and the application service follow and only read. The last field of the struct
  literal reads \<open>p.Phase.Data.Update.Servers\<close> with no \<open>nil\<close> check on \<open>Update\<close>.
  \<open>existingDockerConfig\<close> stands for \<open>checks.DockerConfigFromSchemaValue\<close> on the
  installed manifest followed by \<open>checks.OverrideDockerConfig\<close> with the install
  operation's Docker variables.
\<close>

definition NewUpdatePhaseInitLeader ::
  "lib \<Rightarrow> ExecutorParams \<Rightarrow> 'w Operator \<Rightarrow> 'w Applications \<Rightarrow> 'w Backend \<Rightarrow> 'w Backend
   \<Rightarrow> 'w PackageService \<Rightarrow> 'w PackageService \<Rightarrow> 'w Identity \<Rightarrow> 'w
   \<Rightarrow> 'w updatePhaseInit construction"
where
  "NewUpdatePhaseInitLeader L p operator apps backend localBackend packages localPkgs users w =
     (case Data (Phase p) of
        None \<Rightarrow> Failed (BadParameter ''no application package specified for phase %v''
                          [phase_ID (Phase p)])
      | Some d \<Rightarrow>
     (case Package d of
        None \<Rightarrow> Failed (BadParameter ''no application package specified for phase %v''
                          [phase_ID (Phase p)])
      | Some pkg \<Rightarrow>
     (case InstalledPackage d of
        None \<Rightarrow> Failed (BadParameter
                          ''no installed application package specified for phase %v''
                          [phase_ID (Phase p)])
      | Some installedPkg \<Rightarrow>
     (case op_GetLocalSite operator w of
        Inl err \<Rightarrow> Failed (Wrap err [])
      | Inr cluster \<Rightarrow>
     (case GetSiteOperation operator (OperationKey L (Plan p)) w of
        Inl err \<Rightarrow> Failed (Wrap err [])
      | Inr operation \<Rightarrow>
     (case GetCompletedInstallOperation operator cluster w of
        Inl err \<Rightarrow> Failed (Wrap err [])
      | Inr installOperation \<Rightarrow>
     (case GetApp apps pkg w of
        Inl err \<Rightarrow> Failed (Wrap err ''failed to query application'')
      | Inr app \<Rightarrow>
     (case GetApp apps installedPkg w of
        Inl err \<Rightarrow> Failed (Wrap err ''failed to query installed application'')
      | Inr installedApplication \<Rightarrow>
     (let existingDockerCfg =
            existingDockerConfig L installedApplication (InstallDocker installOperation);
          initServer =
            (case Update d of
               None \<Rightarrow> None
             | Some u \<Rightarrow>
                 (case upd_Servers u of
                    [] \<Rightarrow> None
                  | s # rest \<Rightarrow>
                      Some \<lparr>server = s, localPackages = localPkgs,
                            clusterName = Domain_name cluster\<rparr>))
      in case Update d of
           None \<Rightarrow> Panic
         | Some u \<Rightarrow>
             Built \<lparr>Backend = backend,
                    LocalBackend = localBackend,
                    Operator = operator,
                    Packages = packages,
                    Users = users,
                    Cluster = cluster,
                    Operation = operation,
                    Servers = plan_Servers (Plan p),
                    updateManifest = app_Manifest app,
                    installedApp = installedApplication,
                    existingDocker = existingDockerCfg,
                    existingDNS = plan_DNSConfig (Plan p),
                    init = initServer,
                    existingPeers = clusterPeers L (upd_Servers u)\<rparr>)))))))))"

text \<open>
  \<open>NewUpdatePhaseInitServer\<close> reads \<open>p.Phase.Data.Update\<close> with no \<open>nil\<close> check on
  \<open>Data\<close>.
\<close>

definition NewUpdatePhaseInitServer ::
  "ExecutorParams \<Rightarrow> 'w PackageService \<Rightarrow> string \<Rightarrow> 'w updatePhaseInitServer construction"
where
  "NewUpdatePhaseInitServer p localPkgs cluster =
     (case Data (Phase p) of
        None \<Rightarrow> Panic
      | Some d \<Rightarrow>
          (case Update d of
             None \<Rightarrow> Failed (BadParameter ''no server specified for phase %q''
                               [phase_ID (Phase p)])
           | Some u \<Rightarrow>
               (case upd_Servers u of
                  [] \<Rightarrow> Failed (BadParameter ''no server specified for phase %q''
                                    [phase_ID (Phase p)])
                | s # rest \<Rightarrow>
                    Built \<lparr>server = s, localPackages = localPkgs, clusterName = cluster\<rparr>)))"

subsection \<open>PreCheck and PostCheck\<close>

definition PreCheck :: "'w updatePhaseInit \<Rightarrow> 'ctx \<Rightarrow> 'w \<Rightarrow> error option \<times> 'w" where
  "PreCheck p ctx w = (None, w)"

definition PostCheck :: "'w updatePhaseInit \<Rightarrow> 'ctx \<Rightarrow> 'w \<Rightarrow> error option \<times> 'w" where
  "PostCheck p ctx w = (None, w)"

definition Server_PreCheck :: "'w updatePhaseInitServer \<Rightarrow> 'ctx \<Rightarrow> 'w \<Rightarrow> error option \<times> 'w" where
  "Server_PreCheck p ctx w = (None, w)"

definition Server_PostCheck :: "'w updatePhaseInitServer \<Rightarrow> 'ctx \<Rightarrow> 'w \<Rightarrow> error option \<times> 'w" where
  "Server_PostCheck p ctx w = (None, w)"

definition Server_Rollback :: "'w updatePhaseInitServer \<Rightarrow> 'ctx \<Rightarrow> 'w \<Rightarrow> error option \<times> 'w" where
  "Server_Rollback p ctx w = (None, w)"

subsection \<open>The steps of Execute\<close>

definition removeLegacyUpdateDirectory :: "lib \<Rightarrow> 'w sys \<Rightarrow> 'w \<Rightarrow> error option \<times> 'w" where
  "removeLegacyUpdateDirectory L S w =
     (case GetStateDir S w of
        Inl err \<Rightarrow> (Some (Wrap err []), w)
      | Inr stateDir \<Rightarrow>
          (let updateDir = Join L (GravityUpdateDir L stateDir) ''gravity''
           in case Stat S updateDir w of
                Inl err \<Rightarrow>
                  if IsNotExist L err then (None, w)
                  else (Some (ConvertSystemError L err), w)
              | Inr fi \<Rightarrow>
                  if \<not> IsDir fi then (None, w)
                  else (case RemoveAll S updateDir w of
                          (None, w') \<Rightarrow> (None, w')
                        | (Some err, w') \<Rightarrow> (Some (ConvertSystemError L err), w'))))"

definition createAdminAgent :: "lib \<Rightarrow> 'w updatePhaseInit \<Rightarrow> 'w \<Rightarrow> error option \<times> 'w" where
  "createAdminAgent L p w =
     (let agentEmail = ClusterAdminAgent L (Domain_name (Cluster p))
      in case CreateClusterAdminAgent (Users p) (Domain_name (Cluster p))
                (NewUser agentEmail (AccountID (Cluster p)) (Domain_name (Cluster p))) w of
           (None, w') \<Rightarrow> (None, w')
         | (Some err, w') \<Rightarrow>
             if \<not> IsAlreadyExists err then (Some (Wrap err []), w') else (None, w'))"

definition initRPCCredentials :: "'w sys \<Rightarrow> 'w updatePhaseInit \<Rightarrow> 'w \<Rightarrow> error option \<times> 'w" where
  "initRPCCredentials S p w =
     (case InitCredentials S (Packages p) w of
        (Inr pkg, w') \<Rightarrow> (None, w')
      | (Inl err, w') \<Rightarrow>
          if \<not> IsAlreadyExists err then (Some (Wrap err []), w') else (None, w'))"

definition upsertServiceUser :: "lib \<Rightarrow> 'w sys \<Rightarrow> 'w updatePhaseInit \<Rightarrow> 'w \<Rightarrow> error option \<times> 'w" where
  "upsertServiceUser L S p w =
     (case GetLocalSite (Backend p) (SystemAccountID L) w of
        Inl err \<Rightarrow> (Some (Wrap err []), w)
      | Inr cluster \<Rightarrow>
          if \<not> OSUser_IsEmpty L (ServiceUser cluster) then (None, w)
          else (case GetOrCreateServiceUser S (ServiceUserID L) (ServiceGroupID L) w of
                  (Inl err, w') \<Rightarrow>
                    (Some (Wrap err ''failed to lookup/create service user %q''), w')
                | (Inr user, w') \<Rightarrow>
                    (case UpdateSite (Backend p)
                            (cluster\<lparr>ServiceUser :=
                               \<lparr>user_Name = sys_Name user,
                                UID = Itoa (sys_UID user),
                                GID = Itoa (sys_GID user)\<rparr>\<rparr>) w' of
                       (Some err, w'') \<Rightarrow> (Some (Wrap err []), w'')
                     | (None, w'') \<Rightarrow> (None, w''))))"

text \<open>
  The loop of \<open>updateClusterRoles\<close> over the servers of the cluster record; \<open>state\<close> is
  the Go map from advertise IP to plan server, where a later server replaces an earlier
  one with the same key and a missing key reads as the zero server.
\<close>

definition planState :: "Server list \<Rightarrow> (string \<rightharpoonup> Server)" where
  "planState servers = foldl (\<lambda>state srv. state(AdvertiseIP srv \<mapsto> srv)) Map.empty servers"

fun setClusterRoles :: "(string \<rightharpoonup> Server) \<Rightarrow> Server list \<Rightarrow> Server list" where
  "setClusterRoles state [] = []"
| "setClusterRoles state (srv # rest) =
     (if ClusterRole srv \<noteq> [] then srv # setClusterRoles state rest
      else (let stateServer = (case state (AdvertiseIP srv) of
                                 Some s \<Rightarrow> s
                               | None \<Rightarrow> zeroServer)
            in srv\<lparr>ClusterRole := ClusterRole stateServer\<rparr> # setClusterRoles state rest))"

definition updateClusterRoles :: "lib \<Rightarrow> 'w updatePhaseInit \<Rightarrow> 'w \<Rightarrow> error option \<times> 'w" where
  "updateClusterRoles L p w =
     (case GetLocalSite (Backend p) (SystemAccountID L) w of
        Inl err \<Rightarrow> (Some (Wrap err []), w)
      | Inr cluster \<Rightarrow>
          (let state = planState (Servers p);
               servers = setClusterRoles state (cs_Servers (ClusterState cluster))
           in case UpdateSite (Backend p)
                     (cluster\<lparr>ClusterState := (ClusterState cluster)\<lparr>cs_Servers := servers\<rparr>\<rparr>) w of
                (Some err, w') \<Rightarrow> (Some (Wrap err []), w')
              | (None, w') \<Rightarrow> (None, w')))"

definition updateClusterDNSConfig :: "lib \<Rightarrow> 'w updatePhaseInit \<Rightarrow> 'w \<Rightarrow> error option \<times> 'w" where
  "updateClusterDNSConfig L p w =
     (case GetLocalSite (Backend p) (SystemAccountID L) w of
        Inl err \<Rightarrow> (Some (Wrap err []), w)
      | Inr cluster \<Rightarrow>
          (case UpdateSite (Backend p)
                  (if DNSConfig_IsEmpty L (site_DNSConfig cluster)
                   then cluster\<lparr>site_DNSConfig := existingDNS p\<rparr>
                   else cluster) w of
             (Some err, w') \<Rightarrow> (Some (Wrap err []), w')
           | (None, w') \<Rightarrow> (None, w')))"

definition updateDockerConfig :: "lib \<Rightarrow> 'w updatePhaseInit \<Rightarrow> 'w \<Rightarrow> error option \<times> 'w" where
  "updateDockerConfig L p w =
     (case GetLocalSite (Backend p) (SystemAccountID L) w of
        Inl err \<Rightarrow> (Some (Wrap err []), w)
      | Inr cluster \<Rightarrow>
          if \<not> DockerConfig_IsEmpty L (Docker (ClusterState cluster)) then (None, w)
          else (case UpdateSite (Backend p)
                       (cluster\<lparr>ClusterState :=
                          (ClusterState cluster)\<lparr>Docker := existingDocker p\<rparr>\<rparr>) w of
                  (Some err, w') \<Rightarrow> (Some (Wrap err []), w')
                | (None, w') \<Rightarrow> (None, w')))"

subsection \<open>Object peers\<close>

text \<open>
  Modelled from the spec: \<open>utils.StringInSlice\<close> is not among the sources. By its name
  and by the comment of \<open>invalidPeers\<close> (a peer is invalid when it is no longer in the
  cluster) it tells whether the slice holds the string.
\<close>

definition StringInSlice :: "string list \<Rightarrow> string \<Rightarrow> bool" where
  "StringInSlice strs s = List.member strs s"

text \<open>\<open>invalidPeers\<close> is variadic: it is false as soon as one given peer is an existing peer.\<close>

fun invalidPeers :: "'w updatePhaseInit \<Rightarrow> string list \<Rightarrow> bool" where
  "invalidPeers p [] = True"
| "invalidPeers p (peer # peers) =
     (if StringInSlice (existingPeers p) peer then False else invalidPeers p peers)"

text \<open>The loop of \<open>removeInvalidObjectPeers\<close>, with the errors collected so far.\<close>

fun deleteInvalidPeers ::
  "'w updatePhaseInit \<Rightarrow> Peer list \<Rightarrow> error list \<Rightarrow> 'w \<Rightarrow> error list \<times> 'w"
where
  "deleteInvalidPeers p [] errors w = (errors, w)"
| "deleteInvalidPeers p (peer # peers) errors w =
     (if \<not> invalidPeers p [peer_ID peer] then deleteInvalidPeers p peers errors w
      else (case DeletePeer (Backend p) (peer_ID peer) w of
              (Some err, w') \<Rightarrow> deleteInvalidPeers p peers (errors @ [err]) w'
            | (None, w') \<Rightarrow> deleteInvalidPeers p peers errors w'))"

definition removeInvalidObjectPeers :: "'w updatePhaseInit \<Rightarrow> 'w \<Rightarrow> error option \<times> 'w" where
  "removeInvalidObjectPeers p w =
     (case GetPeers (Backend p) w of
        Inl err \<Rightarrow> (Some (Wrap err []), w)
      | Inr peers \<Rightarrow>
          (case deleteInvalidPeers p peers [] w of
             (errors, w') \<Rightarrow> (NewAggregate errors, w')))"

subsection \<open>Package labels on a server\<close>

text \<open>
  The package searches return a pointer and an error in Go; by the convention of the
  \<open>pack\<close> package exactly one of them is \<open>nil\<close>, which is the sum type here.
\<close>

definition updateRuntimeConfigLabels ::
  "lib \<Rightarrow> 'w sys \<Rightarrow> 'w PackageService \<Rightarrow> Locator \<Rightarrow> 'w \<Rightarrow> error + LabelUpdate list"
where
  "updateRuntimeConfigLabels L S packages installedRuntime w =
     (let fallBack =
            (case FindConfigPackage S packages installedRuntime w of
               Inl err \<Rightarrow> Inl (Wrap err [])
             | Inr runtimeConfig \<Rightarrow>
                 Inr [\<lparr>upd_Locator = runtimeConfig, Add = InstalledLabels L, Remove = []\<rparr>])
      in case FindInstalledConfigPackage S packages installedRuntime w of
           Inl err \<Rightarrow> if \<not> IsNotFound err then Inl (Wrap err []) else fallBack
         | Inr runtimeConfig \<Rightarrow> Inr [])"

definition updateTeleportConfigLabels ::
  "lib \<Rightarrow> 'w sys \<Rightarrow> 'w PackageService \<Rightarrow> string \<Rightarrow> 'w \<Rightarrow> error + LabelUpdate list"
where
  "updateTeleportConfigLabels L S packages cluster w =
     (let labels = [(PurposeLabel L, PurposeTeleportNodeConfig L),
                    (InstalledLabel L, InstalledLabel L)];
          fallBack =
            (case FindLatestPackageCustom S packages cluster
                    (\<lambda>e. Name (env_Locator e) = TeleportNodeConfigPackage L
                         \<and> (HasLabels L e (TeleportNodeConfigPackageLabels L)
                            \<or> HasLabels L e (TeleportLegacyNodeConfigPackageLabels L))) w of
               Inl err \<Rightarrow> Inl (Wrap err [])
             | Inr configPackage \<Rightarrow>
                 Inr [\<lparr>upd_Locator = configPackage, Add = labels, Remove = []\<rparr>])
      in case FindPackage S packages (\<lambda>e. HasLabels L e labels) w of
           Inl err \<Rightarrow> if \<not> IsNotFound err then Inl (Wrap err []) else fallBack
         | Inr configEnv \<Rightarrow> Inr [])"

definition updateRuntimeSecretLabels ::
  "lib \<Rightarrow> 'w sys \<Rightarrow> 'w PackageService \<Rightarrow> 'w \<Rightarrow> error + LabelUpdate list"
where
  "updateRuntimeSecretLabels L S packages w =
     (case FindSecretsPackage S packages w of
        Inl err \<Rightarrow> Inl (Wrap err [])
      | Inr secretsPackage \<Rightarrow>
          (case FindInstalledPackage S packages secretsPackage w of
             Inl err \<Rightarrow>
               if \<not> IsNotFound err then Inl (Wrap err [])
               else Inr [\<lparr>upd_Locator = secretsPackage, Add = InstalledLabels L, Remove = []\<rparr>]
           | Inr installed \<Rightarrow> Inr []))"

text \<open>\<open>Locator.WithLiteralVersion\<close>: the same package at another version.\<close>

definition WithLiteralVersion :: "Locator \<Rightarrow> string \<Rightarrow> Locator" where
  "WithLiteralVersion l v = l\<lparr>Version := v\<rparr>"

definition zeroLocator :: Locator where
  "zeroLocator = \<lparr>Repository = [], Name = [], Version = []\<rparr>"

text \<open>The updates \<open>updateExistingPackageLabels\<close> puts together, in their order.\<close>

definition labelUpdates ::
  "lib \<Rightarrow> Locator \<Rightarrow> LabelUpdate list \<Rightarrow> LabelUpdate list \<Rightarrow> LabelUpdate list \<Rightarrow> LabelUpdate list"
where
  "labelUpdates L installedRuntime runtimeConfigLabels teleportConfigLabels secretLabels =
     runtimeConfigLabels @ secretLabels @ teleportConfigLabels
     @ [\<lparr>upd_Locator = installedRuntime,
          Add = CombineLabels L (RuntimePackageLabels L) (InstalledLabels L),
          Remove = []\<rparr>]
     @ (if IsLegacyRuntimePackage L installedRuntime then
          [\<lparr>upd_Locator =
               (if Name installedRuntime = Name (LegacyPlanetMaster L)
                then WithLiteralVersion (LegacyPlanetNode L) (Version installedRuntime)
                else if Name installedRuntime = Name (LegacyPlanetNode L)
                then WithLiteralVersion (LegacyPlanetMaster L) (Version installedRuntime)
                else zeroLocator),
             Add = RuntimePackageLabels L,
             Remove = [InstalledLabel L]\<rparr>]
        else [])"

text \<open>The final loop of \<open>updateExistingPackageLabels\<close>.\<close>

fun applyLabelUpdates :: "'w PackageService \<Rightarrow> LabelUpdate list \<Rightarrow> 'w \<Rightarrow> error option \<times> 'w" where
  "applyLabelUpdates packages [] w = (None, w)"
| "applyLabelUpdates packages (u # updates) w =
     (case UpdatePackageLabels packages (upd_Locator u) (Add u) (Remove u) w of
        (None, w') \<Rightarrow> applyLabelUpdates packages updates w'
      | (Some err, w') \<Rightarrow>
          if \<not> IsNotFound err then (Some (Wrap err []), w')
          else applyLabelUpdates packages updates w')"

definition updateExistingPackageLabels ::
  "lib \<Rightarrow> 'w sys \<Rightarrow> 'w updatePhaseInitServer \<Rightarrow> 'w \<Rightarrow> error option \<times> 'w"
where
  "updateExistingPackageLabels L S p w =
     (let installedRuntime = Installed (Runtime (server p))
      in case updateRuntimeConfigLabels L S (localPackages p) installedRuntime w of
           Inl err \<Rightarrow> (Some (Wrap err []), w)
         | Inr runtimeConfigLabels \<Rightarrow>
      (case updateTeleportConfigLabels L S (localPackages p) (clusterName p) w of
           Inl err \<Rightarrow> (Some (Wrap err []), w)
         | Inr teleportConfigLabels \<Rightarrow>
      (case updateRuntimeSecretLabels L S (localPackages p) w of
           Inl err \<Rightarrow> (Some (Wrap err []), w)
         | Inr secretLabels \<Rightarrow>
             applyLabelUpdates (localPackages p)
               (labelUpdates L installedRuntime runtimeConfigLabels teleportConfigLabels
                  secretLabels) w)))"

definition Server_Execute ::
  "lib \<Rightarrow> 'w sys \<Rightarrow> 'w updatePhaseInitServer \<Rightarrow> 'ctx \<Rightarrow> 'w \<Rightarrow> error option \<times> 'w"
where
  "Server_Execute L S p ctx w =
     (case updateExistingPackageLabels L S p w of
        (Some err, w') \<Rightarrow> (Some (Wrap err ''failed to update existing package labels''), w')
      | (None, w') \<Rightarrow> (None, w'))"

subsection \<open>Execute\<close>

text \<open>
  \<open>if err := step(); err != nil { return trace.Wrap(err, msg) }\<close>, the shape of every
  step of \<open>Execute\<close>: the rest runs in the world the step left.
\<close>

definition orReturn ::
  "error option \<times> 'w \<Rightarrow> string \<Rightarrow> ('w \<Rightarrow> error option \<times> 'w) \<Rightarrow> error option \<times> 'w"
where
  "orReturn r msg rest =
     (case r of
        (Some err, w) \<Rightarrow> (Some (Wrap err msg), w)
      | (None, w) \<Rightarrow> rest w)"

definition Execute :: "lib \<Rightarrow> 'w sys \<Rightarrow> 'w updatePhaseInit \<Rightarrow> 'ctx \<Rightarrow> 'w \<Rightarrow> error option \<times> 'w" where
  "Execute L S p ctx w =
     (case removeLegacyUpdateDirectory L S w of
        (logged, w0) \<Rightarrow>
     orReturn (createAdminAgent L p w0) ''failed to create cluster admin agent'' (\<lambda>w1.
     orReturn (upsertServiceUser L S p w1) ''failed to upsert service user'' (\<lambda>w2.
     orReturn (initRPCCredentials S p w2) ''failed to init RPC credentials'' (\<lambda>w3.
     orReturn (updateClusterRoles L p w3) ''failed to update RPC credentials'' (\<lambda>w4.
     orReturn (updateClusterDNSConfig L p w4) ''failed to update DNS configuration'' (\<lambda>w5.
     orReturn (updateDockerConfig L p w5) ''failed to update Docker configuration'' (\<lambda>w6.
     orReturn (removeInvalidObjectPeers p w6) ''failed to clean up object peers'' (\<lambda>w7.
       (case init p of
          None \<Rightarrow> (None, w7)
        | Some i \<Rightarrow> orReturn (Server_Execute L S i ctx w7) [] (\<lambda>w8. (None, w8)))))))))))"

subsection \<open>Rollback\<close>

text \<open>
  Modelled from the spec: \<open>pack.ForeachPackageInRepo\<close> is not among the sources. By
  its name and its use it lists the packages of the repository through the package
  service and calls the function on each in turn, stopping at the first error, which
  it returns wrapped; an error of the listing is returned wrapped, too.
\<close>

fun foreachPackage ::
  "(PackageEnvelope \<Rightarrow> 'w \<Rightarrow> error option \<times> 'w) \<Rightarrow> PackageEnvelope list \<Rightarrow> 'w \<Rightarrow> error option \<times> 'w"
where
  "foreachPackage fn [] w = (None, w)"
| "foreachPackage fn (e # es) w =
     (case fn e w of
        (Some err, w') \<Rightarrow> (Some (Wrap err []), w')
      | (None, w') \<Rightarrow> foreachPackage fn es w')"

definition ForeachPackageInRepo ::
  "'w PackageService \<Rightarrow> string \<Rightarrow> (PackageEnvelope \<Rightarrow> 'w \<Rightarrow> error option \<times> 'w) \<Rightarrow> 'w
   \<Rightarrow> error option \<times> 'w"
where
  "ForeachPackageInRepo packages repository fn w =
     (case GetPackages packages repository w of
        Inl err \<Rightarrow> (Some (Wrap err []), w)
      | Inr envelopes \<Rightarrow> foreachPackage fn envelopes w)"

definition removeConfiguredPackages :: "lib \<Rightarrow> 'w updatePhaseInit \<Rightarrow> 'w \<Rightarrow> error option \<times> 'w" where
  "removeConfiguredPackages L p w =
     ForeachPackageInRepo (Packages p) (SiteDomain (Operation p))
       (\<lambda>e w'. if HasLabel L e (OperationIDLabel L) (ID (Operation p))
               then DeletePackage (Packages p) (env_Locator e) w'
               else (None, w')) w"

definition Rollback :: "lib \<Rightarrow> 'w updatePhaseInit \<Rightarrow> 'ctx \<Rightarrow> 'w \<Rightarrow> error option \<times> 'w" where
  "Rollback L p ctx w =
     (case (case init p of
              None \<Rightarrow> (None, w)
            | Some i \<Rightarrow> Server_Rollback i ctx w) of
        (Some err, w') \<Rightarrow> (Some (Wrap err []), w')
      | (None, w') \<Rightarrow>
          (case removeConfiguredPackages L p w' of
             (Some err, w'') \<Rightarrow> (Some (Wrap err []), w'')
           | (None, w'') \<Rightarrow> (None, w'')))"

section \<open>An in-memory cluster for running the phase\<close>

text \<open>
  A small concrete world and collaborators over it, on which the phase is run below: a
  stored cluster record, the object peers, the packages, the admin agents, whether the
  RPC credentials exist, and the log of the calls that changed something. The backend
  keeps the last record written; creating what exists fails with an already-exists
  error; a label update of a missing package fails with a not-found error; deleting the
  peer \<open>stuck\<close> fails.
\<close>

record World =
  the_site :: Site
  the_peers :: "Peer list"
  the_packages :: "PackageEnvelope list"
  the_agents :: "string list"
  the_secrets :: bool
  the_calls :: "string list"

definition called :: "string \<Rightarrow> World \<Rightarrow> World" where
  "called c w = w\<lparr>the_calls := the_calls w @ [c]\<rparr>"

definition testBackend :: "World Backend" where
  "testBackend =
     \<lparr>GetLocalSite = (\<lambda>account w. Inr (the_site w)),
      UpdateSite = (\<lambda>s w. (None, called ''UpdateSite'' (w\<lparr>the_site := s\<rparr>))),
      GetPeers = (\<lambda>w. Inr (the_peers w)),
      DeletePeer = (\<lambda>i w.
        if i = ''stuck''
        then (Some (TraceErr ConnectionProblemError ''peer %v is busy'' [i]),
              called (''DeletePeer '' @ i) w)
        else (None, called (''DeletePeer '' @ i)
                      (w\<lparr>the_peers := filter (\<lambda>q. peer_ID q \<noteq> i) (the_peers w)\<rparr>)))\<rparr>"

text \<open>The same backend with a cluster record that cannot be written.\<close>

definition readOnlyBackend :: "World Backend" where
  "readOnlyBackend =
     testBackend\<lparr>UpdateSite := (\<lambda>s w.
       (Some (TraceErr ConnectionProblemError ''backend is read-only'' []),
        called ''UpdateSite'' w))\<rparr>"

definition testPackages :: "World PackageService" where
  "testPackages =
     \<lparr>GetPackages = (\<lambda>repository w.
        Inr (filter (\<lambda>e. Repository (env_Locator e) = repository) (the_packages w))),
      DeletePackage = (\<lambda>l w.
        (None, called (''DeletePackage '' @ Name l)
                 (w\<lparr>the_packages := filter (\<lambda>e. env_Locator e \<noteq> l) (the_packages w)\<rparr>))),
      UpdatePackageLabels = (\<lambda>l add remove w.
        if list_ex (\<lambda>e. env_Locator e = l) (the_packages w)
        then (None, called (''UpdatePackageLabels '' @ Name l)
                      (w\<lparr>the_packages := map (\<lambda>e.
                          if env_Locator e = l
                          then e\<lparr>RuntimeLabels :=
                                 add @ filter (\<lambda>kv. fst kv \<notin> set remove \<and> fst kv \<notin> fst ` set add)
                                         (RuntimeLabels e)\<rparr>
                          else e) (the_packages w)\<rparr>))
        else (Some (TraceErr NotFoundError ''package %v not found'' [Name l]), w))\<rparr>"

definition testUsers :: "World Identity" where
  "testUsers =
     \<lparr>CreateClusterAdminAgent = (\<lambda>cluster u w.
        if email u \<in> set (the_agents w)
        then (Some (TraceErr AlreadyExistsError ''user %v already exists'' [email u]), w)
        else (None, called ''CreateClusterAdminAgent'' (w\<lparr>the_agents := email u # the_agents w\<rparr>)))\<rparr>"

text \<open>A users service that is out of reach.\<close>

definition deniedUsers :: "World Identity" where
  "deniedUsers =
     \<lparr>CreateClusterAdminAgent = (\<lambda>cluster u w.
        (Some (TraceErr AccessDeniedError ''access denied'' []), w))\<rparr>"

definition testOperator :: "World Operator" where
  "testOperator =
     \<lparr>op_GetLocalSite = (\<lambda>w. Inr \<lparr>AccountID = site_AccountID (the_site w),
                                   Domain_name = site_Domain (the_site w)\<rparr>),
      GetSiteOperation = (\<lambda>key w. Inr \<lparr>ID = key, SiteDomain = site_Domain (the_site w),
                                       InstallDocker = \<lparr>StorageDriver = [], Args = []\<rparr>\<rparr>),
      GetCompletedInstallOperation = (\<lambda>cluster w.
        Inr \<lparr>ID = ''install'', SiteDomain = Domain_name cluster,
             InstallDocker = \<lparr>StorageDriver = ''overlay2'', Args = []\<rparr>\<rparr>)\<rparr>"

definition testApps :: "World Applications" where
  "testApps = \<lparr>GetApp = (\<lambda>l w. Inr \<lparr>app_Package = l, app_Manifest = Name l\<rparr>)\<rparr>"

definition hasLabel :: "PackageEnvelope \<Rightarrow> string \<Rightarrow> string \<Rightarrow> bool" where
  "hasLabel e label val = (map_of (RuntimeLabels e) label = Some val)"

definition testLib :: lib where
  "testLib =
     \<lparr>SystemAccountID = ''system'',
      ServiceUserID = ''1000'',
      ServiceGroupID = ''1000'',
      OperationIDLabel = ''operation-id'',
      InstalledLabel = ''installed'',
      PurposeLabel = ''purpose'',
      PurposeTeleportNodeConfig = ''teleport-node-config'',
      TeleportNodeConfigPackage = ''teleport-node-config'',
      InstalledLabels = [(''installed'', ''installed'')],
      RuntimePackageLabels = [(''purpose'', ''runtime'')],
      TeleportNodeConfigPackageLabels = [(''purpose'', ''teleport-node-config'')],
      TeleportLegacyNodeConfigPackageLabels = [(''config-package-for'', ''teleport'')],
      LegacyPlanetMaster = \<lparr>Repository = ''gravitational.io'', Name = ''planet-master'',
                             Version = ''0.0.0''\<rparr>,
      LegacyPlanetNode = \<lparr>Repository = ''gravitational.io'', Name = ''planet-node'',
                           Version = ''0.0.0''\<rparr>,
      IsLegacyRuntimePackage = (\<lambda>l. Name l = ''planet-master'' \<or> Name l = ''planet-node''),
      CombineLabels = (\<lambda>a b. b @ filter (\<lambda>kv. fst kv \<notin> fst ` set b) a),
      HasLabel = hasLabel,
      HasLabels = (\<lambda>e ls. list_all (\<lambda>kv. hasLabel e (fst kv) (snd kv)) ls),
      OSUser_IsEmpty = (\<lambda>u. user_Name u = [] \<and> UID u = [] \<and> GID u = []),
      DNSConfig_IsEmpty = (\<lambda>d. Addrs d = [] \<and> Port d = 0),
      DockerConfig_IsEmpty = (\<lambda>d. StorageDriver d = [] \<and> Args d = []),
      ClusterAdminAgent = (\<lambda>cluster. ''agent@'' @ cluster),
      SplitServers = (\<lambda>servers. (filter (\<lambda>s. ClusterRole s = ''master'') servers,
                                  filter (\<lambda>s. ClusterRole s = ''node'') servers)),
      ObjectPeerID = AdvertiseIP,
      OperationKey = OperationID,
      existingDockerConfig = (\<lambda>a d. d),
      GravityUpdateDir = (\<lambda>dir. dir @ ''/the_site/update''),
      Join = (\<lambda>a b. a @ ''/'' @ b),
      IsNotExist = IsNotFound,
      ConvertSystemError = (\<lambda>e. e)\<rparr>"

definition testSys :: "World sys" where
  "testSys =
     \<lparr>InitCredentials = (\<lambda>pkgs w.
        if the_secrets w
        then (Inl (TraceErr AlreadyExistsError ''package %v already exists'' [''rpc-secrets'']), w)
        else (Inr \<lparr>Repository = ''gravitational.io'', Name = ''rpc-secrets'', Version = ''0.0.1''\<rparr>,
              called ''InitCredentials'' (w\<lparr>the_secrets := True\<rparr>))),
      GetOrCreateServiceUser = (\<lambda>uid gid w.
        (Inr \<lparr>sys_Name = ''planet'', sys_UID = 1000, sys_GID = 1000\<rparr>, w)),
      FindInstalledConfigPackage = (\<lambda>pkgs l w. Inr (l\<lparr>Name := Name l @ ''-config''\<rparr>)),
      FindConfigPackage = (\<lambda>pkgs l w. Inr (l\<lparr>Name := Name l @ ''-config''\<rparr>)),
      FindPackage = (\<lambda>pkgs f w.
        case filter f (the_packages w) of
          [] \<Rightarrow> Inl (TraceErr NotFoundError ''package not found'' [])
        | e # es \<Rightarrow> Inr e),
      FindLatestPackageCustom = (\<lambda>pkgs repository f w.
        case filter f (the_packages w) of
          [] \<Rightarrow> Inl (TraceErr NotFoundError ''package not found'' [])
        | e # es \<Rightarrow> Inr (env_Locator e)),
      FindSecretsPackage = (\<lambda>pkgs w.
        Inr \<lparr>Repository = ''gravitational.io'', Name = ''planet-secrets'', Version = ''0.0.1''\<rparr>),
      FindInstalledPackage = (\<lambda>pkgs l w.
        Inl (TraceErr NotFoundError ''no installed package for %v'' [Name l])),
      GetStateDir = (\<lambda>w. Inr ''/var/lib/gravity''),
      Stat = (\<lambda>path w. Inl (TraceErr NotFoundError ''stat %v: no such file or directory'' [path])),
      RemoveAll = (\<lambda>path w. (None, called (''RemoveAll '' @ path) w))\<rparr>"

definition node1 :: Server where
  "node1 = \<lparr>AdvertiseIP = ''10.0.0.1'', Hostname = ''node-1'', Nodename = ''node-1'',
            Role = ''knode'', ClusterRole = ''master''\<rparr>"

definition node2 :: Server where
  "node2 = \<lparr>AdvertiseIP = ''10.0.0.2'', Hostname = ''node-2'', Nodename = ''node-2'',
            Role = ''knode'', ClusterRole = ''node''\<rparr>"

definition runtime1 :: Locator where
  "runtime1 = \<lparr>Repository = ''gravitational.io'', Name = ''planet'', Version = ''7.0.1''\<rparr>"

definition testServer :: "World updatePhaseInitServer" where
  "testServer =
     \<lparr>server = Server.extend node1 (UpdateServer.fields \<lparr>Installed = runtime1, Update_to = None\<rparr>),
      localPackages = testPackages,
      clusterName = ''example.com''\<rparr>"

definition testPhase :: "World updatePhaseInit" where
  "testPhase =
     \<lparr>Backend = testBackend,
      LocalBackend = testBackend,
      Operator = testOperator,
      Packages = testPackages,
      Users = testUsers,
      Cluster = \<lparr>AccountID = ''system'', Domain_name = ''example.com''\<rparr>,
      Operation = \<lparr>ID = ''op-1'', SiteDomain = ''example.com'',
                   InstallDocker = \<lparr>StorageDriver = [], Args = []\<rparr>\<rparr>,
      Servers = [node1, node2],
      updateManifest = ''manifest-2'',
      installedApp = \<lparr>app_Package = runtime1, app_Manifest = ''manifest-1''\<rparr>,
      existingDocker = \<lparr>StorageDriver = ''overlay2'', Args = []\<rparr>,
      existingDNS = \<lparr>Addrs = [''127.0.0.2''], Port = 53\<rparr>,
      init = Some testServer,
      existingPeers = [''10.0.0.1'']\<rparr>"

text \<open>A cluster as an older version left it: no service user, no roles, no DNS, no Docker.\<close>

definition oldWorld :: World where
  "oldWorld =
     \<lparr>the_site = \<lparr>site_AccountID = ''system'', site_Domain = ''example.com'',
              ServiceUser = \<lparr>user_Name = [], UID = [], GID = []\<rparr>,
              site_DNSConfig = \<lparr>Addrs = [], Port = 0\<rparr>,
              ClusterState = \<lparr>cs_Servers = [node1\<lparr>ClusterRole := []\<rparr>, node2\<lparr>ClusterRole := []\<rparr>],
                              Docker = \<lparr>StorageDriver = [], Args = []\<rparr>\<rparr>\<rparr>,
      the_peers = [\<lparr>peer_ID = ''10.0.0.1'', AdvertiseAddr = ''10.0.0.1:3009''\<rparr>,
               \<lparr>peer_ID = ''stuck'', AdvertiseAddr = ''10.0.0.8:3009''\<rparr>,
               \<lparr>peer_ID = ''10.0.0.9'', AdvertiseAddr = ''10.0.0.9:3009''\<rparr>],
      the_packages = [\<lparr>env_Locator = runtime1, RuntimeLabels = []\<rparr>,
                  \<lparr>env_Locator = \<lparr>Repository = ''example.com'', Name = ''planet-config'',
                                   Version = ''7.0.2''\<rparr>,
                    RuntimeLabels = [(''operation-id'', ''op-1'')]\<rparr>,
                  \<lparr>env_Locator = \<lparr>Repository = ''example.com'', Name = ''site-export'',
                                   Version = ''1.0.0''\<rparr>,
                    RuntimeLabels = [(''operation-id'', ''op-0'')]\<rparr>,
                  \<lparr>env_Locator = \<lparr>Repository = ''example.com'',
                                   Name = ''teleport-node-config'', Version = ''3.2.1''\<rparr>,
                    RuntimeLabels = [(''purpose'', ''teleport-node-config'')]\<rparr>],
      the_agents = [],
      the_secrets = False,
      the_calls = []\<rparr>"


section \<open>Notions the statements use\<close>

text \<open>
  The call \<open>createAdminAgent\<close> makes to the users service, and collaborators that
  report success where the given ones report an already-exists error, leaving the
  world as the given ones leave it.
\<close>

definition adminAgentCall :: "lib \<Rightarrow> 'w updatePhaseInit \<Rightarrow> 'w \<Rightarrow> error option \<times> 'w" where
  "adminAgentCall L p w =
     CreateClusterAdminAgent (Users p) (Domain_name (Cluster p))
       (NewUser (ClusterAdminAgent L (Domain_name (Cluster p))) (AccountID (Cluster p))
          (Domain_name (Cluster p))) w"

definition forgivingUsers :: "'w Identity \<Rightarrow> 'w Identity" where
  "forgivingUsers U =
     \<lparr>CreateClusterAdminAgent = (\<lambda>cluster u w.
        case CreateClusterAdminAgent U cluster u w of
          (Some err, w') \<Rightarrow> if IsAlreadyExists err then (None, w') else (Some err, w')
        | (None, w') \<Rightarrow> (None, w'))\<rparr>"

definition forgivingCredentials ::
  "('w PackageService \<Rightarrow> 'w \<Rightarrow> (error + Locator) \<times> 'w)
   \<Rightarrow> 'w PackageService \<Rightarrow> 'w \<Rightarrow> (error + Locator) \<times> 'w"
where
  "forgivingCredentials f packages w =
     (case f packages w of
        (Inl err, w') \<Rightarrow> if IsAlreadyExists err then (Inr zeroLocator, w') else (Inl err, w')
      | (Inr pkg, w') \<Rightarrow> (Inr pkg, w'))"

text \<open>A call of one of the four checks, and a run of any number of them in any order.\<close>

datatype checkCall = LeaderPreCheck | LeaderPostCheck | ServerPreCheck | ServerPostCheck

fun runCheck ::
  "'w updatePhaseInit \<Rightarrow> 'w updatePhaseInitServer \<Rightarrow> checkCall \<times> 'ctx \<Rightarrow> 'w \<Rightarrow> error option \<times> 'w"
where
  "runCheck p i (LeaderPreCheck, ctx) w = PreCheck p ctx w"
| "runCheck p i (LeaderPostCheck, ctx) w = PostCheck p ctx w"
| "runCheck p i (ServerPreCheck, ctx) w = Server_PreCheck i ctx w"
| "runCheck p i (ServerPostCheck, ctx) w = Server_PostCheck i ctx w"

fun runChecks ::
  "'w updatePhaseInit \<Rightarrow> 'w updatePhaseInitServer \<Rightarrow> (checkCall \<times> 'ctx) list \<Rightarrow> 'w
   \<Rightarrow> error option list \<times> 'w"
where
  "runChecks p i [] w = ([], w)"
| "runChecks p i (c # cs) w =
     (case runCheck p i c w of
        (r, w') \<Rightarrow> (case runChecks p i cs w' of (rs, w'') \<Rightarrow> (r # rs, w'')))"

text \<open>Parameters of a phase without data.\<close>

definition noDataParams :: ExecutorParams where
  "noDataParams =
     \<lparr>Plan = \<lparr>OperationID = ''op-1'', plan_Servers = [node1, node2],
              plan_DNSConfig = \<lparr>Addrs = [''127.0.0.2''], Port = 53\<rparr>\<rparr>,
      Phase = \<lparr>phase_ID = ''/init'', Data = None\<rparr>\<rparr>"

text \<open>
  The cluster role the plan gives for an advertise IP: that of the plan server with this
  address (the last one, should several have it), empty when there is none.
\<close>

definition planRole :: "Server list \<Rightarrow> string \<Rightarrow> string" where
  "planRole servers ip =
     (case find (\<lambda>s. AdvertiseIP s = ip) (rev servers) of
        Some s \<Rightarrow> ClusterRole s
      | None \<Rightarrow> [])"

text \<open>
  Making a call on every element of a list in turn, whatever the calls return: the
  results of the calls, and the world after the last one.
\<close>

fun attemptAll ::
  "('a \<Rightarrow> 'w \<Rightarrow> error option \<times> 'w) \<Rightarrow> 'a list \<Rightarrow> 'w \<Rightarrow> error option list \<times> 'w"
where
  "attemptAll del [] w = ([], w)"
| "attemptAll del (i # rest) w =
     (case del i w of
        (r, w') \<Rightarrow> (case attemptAll del rest w' of (rs, w'') \<Rightarrow> (r # rs, w'')))"

text \<open>The peers that are not among the existing peers, and the errors among results.\<close>

definition invalidPeerIDs :: "'w updatePhaseInit \<Rightarrow> Peer list \<Rightarrow> string list" where
  "invalidPeerIDs p ps = filter (\<lambda>i. i \<notin> set (existingPeers p)) (map peer_ID ps)"

definition errorsOf :: "error option list \<Rightarrow> error list" where
  "errorsOf rs = map the (filter (\<lambda>r. r \<noteq> None) rs)"

text \<open>
  The call the loop of \<open>updateExistingPackageLabels\<close> makes for an update, and a result
  the loop goes on after: success, or a not-found error.
\<close>

definition labelCall :: "'w PackageService \<Rightarrow> LabelUpdate \<Rightarrow> 'w \<Rightarrow> error option \<times> 'w" where
  "labelCall packages u w = UpdatePackageLabels packages (upd_Locator u) (Add u) (Remove u) w"

definition passes :: "error option \<Rightarrow> bool" where
  "passes r = (case r of None \<Rightarrow> True | Some err \<Rightarrow> IsNotFound err)"

text \<open>The updates of the in-memory server: its secrets package is missing.\<close>

definition testUpdates :: "LabelUpdate list" where
  "testUpdates =
     [\<lparr>upd_Locator = \<lparr>Repository = ''gravitational.io'', Name = ''planet-secrets'',
                      Version = ''0.0.1''\<rparr>,
       Add = [(''installed'', ''installed'')], Remove = []\<rparr>,
      \<lparr>upd_Locator = \<lparr>Repository = ''example.com'', Name = ''teleport-node-config'',
                      Version = ''3.2.1''\<rparr>,
       Add = [(''purpose'', ''teleport-node-config''), (''installed'', ''installed'')],
       Remove = []\<rparr>,
      \<lparr>upd_Locator = runtime1,
       Add = [(''installed'', ''installed''), (''purpose'', ''runtime'')], Remove = []\<rparr>]"

text \<open>
  The packages of the operation: those of the listed envelopes that carry the
  operation-ID label with the ID of this operation.
\<close>

definition operationPackages :: "lib \<Rightarrow> 'w updatePhaseInit \<Rightarrow> PackageEnvelope list \<Rightarrow> Locator list" where
  "operationPackages L p es =
     map env_Locator (filter (\<lambda>e. HasLabel L e (OperationIDLabel L) (ID (Operation p))) es)"

definition removeLabelled ::
  "lib \<Rightarrow> 'w updatePhaseInit \<Rightarrow> PackageEnvelope \<Rightarrow> 'w \<Rightarrow> error option \<times> 'w"
where
  "removeLabelled L p e w =
     (if HasLabel L e (OperationIDLabel L) (ID (Operation p))
      then DeletePackage (Packages p) (env_Locator e) w
      else (None, w))"

text \<open>
  A backend that keeps the cluster record, seen through \<open>stored\<close>: a read that
  succeeds gives the stored record; a write that succeeds stores its argument, and one
  that fails stores it or leaves the record; no other collaborator call of the phase
  touches the record.
\<close>

definition keepsRecord :: "lib \<Rightarrow> 'w sys \<Rightarrow> 'w updatePhaseInit \<Rightarrow> ('w \<Rightarrow> Site) \<Rightarrow> bool" where
  "keepsRecord L S p stored \<longleftrightarrow>
     (\<forall>w c. GetLocalSite (Backend p) (SystemAccountID L) w = Inr c \<longrightarrow> c = stored w)
   \<and> (\<forall>s w. fst (UpdateSite (Backend p) s w) = None
          \<longrightarrow> stored (snd (UpdateSite (Backend p) s w)) = s)
   \<and> (\<forall>s w. stored (snd (UpdateSite (Backend p) s w)) = s
            \<or> stored (snd (UpdateSite (Backend p) s w)) = stored w)
   \<and> (\<forall>i w. stored (snd (DeletePeer (Backend p) i w)) = stored w)
   \<and> (\<forall>c u w. stored (snd (CreateClusterAdminAgent (Users p) c u w)) = stored w)
   \<and> (\<forall>w. stored (snd (InitCredentials S (Packages p) w)) = stored w)
   \<and> (\<forall>a b w. stored (snd (GetOrCreateServiceUser S a b w)) = stored w)
   \<and> (\<forall>d w. stored (snd (RemoveAll S d w)) = stored w)
   \<and> (\<forall>i l a r w. init p = Some i
          \<longrightarrow> stored (snd (UpdatePackageLabels (localPackages i) l a r w)) = stored w)"

text \<open>The three changes \<open>Execute\<close> makes to a cluster record after the service user.\<close>

definition withRoles :: "'w updatePhaseInit \<Rightarrow> Site \<Rightarrow> Site" where
  "withRoles p c =
     c\<lparr>ClusterState := (ClusterState c)
         \<lparr>cs_Servers := setClusterRoles (planState (Servers p)) (cs_Servers (ClusterState c))\<rparr>\<rparr>"

definition withDNS :: "lib \<Rightarrow> 'w updatePhaseInit \<Rightarrow> Site \<Rightarrow> Site" where
  "withDNS L p c =
     (if DNSConfig_IsEmpty L (site_DNSConfig c) then c\<lparr>site_DNSConfig := existingDNS p\<rparr> else c)"

definition withDocker :: "lib \<Rightarrow> 'w updatePhaseInit \<Rightarrow> Site \<Rightarrow> Site" where
  "withDocker L p c =
     (if DockerConfig_IsEmpty L (Docker (ClusterState c))
      then c\<lparr>ClusterState := (ClusterState c)\<lparr>Docker := existingDocker p\<rparr>\<rparr> else c)"

text \<open>A cluster record that \<open>Execute\<close> has nothing to add to.\<close>

definition converged :: "lib \<Rightarrow> 'w updatePhaseInit \<Rightarrow> Site \<Rightarrow> bool" where
  "converged L p c \<longleftrightarrow>
     \<not> OSUser_IsEmpty L (ServiceUser c)
   \<and> withRoles p c = c \<and> withDNS L p c = c \<and> withDocker L p c = c"

text \<open>The steps of \<open>Execute\<close> from a given one on.\<close>

definition fromServer :: "lib \<Rightarrow> 'w sys \<Rightarrow> 'w updatePhaseInit \<Rightarrow> 'ctx \<Rightarrow> 'w \<Rightarrow> error option \<times> 'w" where
  "fromServer L S p ctx w7 =
     (case init p of
        None \<Rightarrow> (None, w7)
      | Some i \<Rightarrow> orReturn (Server_Execute L S i ctx w7) [] (\<lambda>w8. (None, w8)))"

definition fromPeers :: "lib \<Rightarrow> 'w sys \<Rightarrow> 'w updatePhaseInit \<Rightarrow> 'ctx \<Rightarrow> 'w \<Rightarrow> error option \<times> 'w" where
  "fromPeers L S p ctx w6 =
     orReturn (removeInvalidObjectPeers p w6) ''failed to clean up object peers''
       (fromServer L S p ctx)"

definition fromDocker :: "lib \<Rightarrow> 'w sys \<Rightarrow> 'w updatePhaseInit \<Rightarrow> 'ctx \<Rightarrow> 'w \<Rightarrow> error option \<times> 'w" where
  "fromDocker L S p ctx w5 =
     orReturn (updateDockerConfig L p w5) ''failed to update Docker configuration''
       (fromPeers L S p ctx)"

definition fromDNS :: "lib \<Rightarrow> 'w sys \<Rightarrow> 'w updatePhaseInit \<Rightarrow> 'ctx \<Rightarrow> 'w \<Rightarrow> error option \<times> 'w" where
  "fromDNS L S p ctx w4 =
     orReturn (updateClusterDNSConfig L p w4) ''failed to update DNS configuration''
       (fromDocker L S p ctx)"

definition fromRoles :: "lib \<Rightarrow> 'w sys \<Rightarrow> 'w updatePhaseInit \<Rightarrow> 'ctx \<Rightarrow> 'w \<Rightarrow> error option \<times> 'w" where
  "fromRoles L S p ctx w3 =
     orReturn (updateClusterRoles L p w3) ''failed to update RPC credentials''
       (fromDNS L S p ctx)"

definition fromCredentials :: "lib \<Rightarrow> 'w sys \<Rightarrow> 'w updatePhaseInit \<Rightarrow> 'ctx \<Rightarrow> 'w \<Rightarrow> error option \<times> 'w" where
  "fromCredentials L S p ctx w2 =
     orReturn (initRPCCredentials S p w2) ''failed to init RPC credentials''
       (fromRoles L S p ctx)"

definition fromServiceUser :: "lib \<Rightarrow> 'w sys \<Rightarrow> 'w updatePhaseInit \<Rightarrow> 'ctx \<Rightarrow> 'w \<Rightarrow> error option \<times> 'w" where
  "fromServiceUser L S p ctx w1 =
     orReturn (upsertServiceUser L S p w1) ''failed to upsert service user''
       (fromCredentials L S p ctx)"

text \<open>
  The in-memory cluster without the peer that cannot be deleted, and the same cluster
  after a run of \<open>Execute\<close>.
\<close>

definition freshWorld :: World where
  "freshWorld =
     oldWorld\<lparr>the_peers := [\<lparr>peer_ID = ''10.0.0.1'', AdvertiseAddr = ''10.0.0.1:3009''\<rparr>,
                             \<lparr>peer_ID = ''10.0.0.9'', AdvertiseAddr = ''10.0.0.9:3009''\<rparr>]\<rparr>"

definition upgradedWorld :: World where
  "upgradedWorld =
     \<lparr>the_site =
        \<lparr>site_AccountID = ''system'', site_Domain = ''example.com'',
         ServiceUser = \<lparr>user_Name = ''planet'', UID = ''1000'', GID = ''1000''\<rparr>,
         site_DNSConfig = \<lparr>Addrs = [''127.0.0.2''], Port = 53\<rparr>,
         ClusterState = \<lparr>cs_Servers = [node1, node2],
                         Docker = \<lparr>StorageDriver = ''overlay2'', Args = []\<rparr>\<rparr>\<rparr>,
      the_peers = [\<lparr>peer_ID = ''10.0.0.1'', AdvertiseAddr = ''10.0.0.1:3009''\<rparr>],
      the_packages =
        [\<lparr>env_Locator = runtime1,
          RuntimeLabels = [(''installed'', ''installed''), (''purpose'', ''runtime'')]\<rparr>,
         \<lparr>env_Locator = \<lparr>Repository = ''example.com'', Name = ''planet-config'',
                          Version = ''7.0.2''\<rparr>,
          RuntimeLabels = [(''operation-id'', ''op-1'')]\<rparr>,
         \<lparr>env_Locator = \<lparr>Repository = ''example.com'', Name = ''site-export'',
                          Version = ''1.0.0''\<rparr>,
          RuntimeLabels = [(''operation-id'', ''op-0'')]\<rparr>,
         \<lparr>env_Locator = \<lparr>Repository = ''example.com'', Name = ''teleport-node-config'',
                          Version = ''3.2.1''\<rparr>,
          RuntimeLabels = [(''purpose'', ''teleport-node-config''),
                           (''installed'', ''installed'')]\<rparr>],
      the_agents = [''agent@example.com''],
      the_secrets = True,
      the_calls = [''CreateClusterAdminAgent'', ''UpdateSite'', ''InitCredentials'',
                   ''UpdateSite'', ''UpdateSite'', ''UpdateSite'', ''DeletePeer 10.0.0.9'',
                   ''UpdatePackageLabels teleport-node-config'',
                   ''UpdatePackageLabels planet'']\<rparr>"

section \<open>Subnet validation (C8, C9)\<close>

text \<open>
  C8. \<open>KubernetesSubnets\<close> returns an error exactly when the pod subnet is given and
  does not parse, or parses to a prefix longer than 16 bits, or the service subnet is
  given and does not parse, or both are given, parse, and one network contains the base
  address of the other. Two empty strings are accepted, and a service subnet of any
  size is accepted when it parses and no pod subnet is given. \<open>ParseCIDR\<close> is any
  parser that rejects the empty string, as the library's does.
\<close>

theorem KubernetesSubnets_error_iff:
  assumes "ParseCIDR [] = None"
  shows "(KubernetesSubnets ParseCIDR podCIDR serviceCIDR \<noteq> None \<longleftrightarrow>
            (podCIDR \<noteq> [] \<and> ParseCIDR podCIDR = None)
          \<or> (\<exists>podNet. ParseCIDR podCIDR = Some podNet \<and> 16 < fst (Size (Mask podNet)))
          \<or> (serviceCIDR \<noteq> [] \<and> ParseCIDR serviceCIDR = None)
          \<or> (podCIDR \<noteq> [] \<and> serviceCIDR \<noteq> [] \<and>
              (\<exists>pn sn. ParseCIDR podCIDR = Some pn \<and> ParseCIDR serviceCIDR = Some sn
                 \<and> (Contains pn (IP sn) \<or> Contains sn (IP pn)))))
       \<and> KubernetesSubnets ParseCIDR [] [] = None
       \<and> (\<forall>sn. ParseCIDR serviceCIDR = Some sn \<longrightarrow>
             KubernetesSubnets ParseCIDR [] serviceCIDR = None)"
proof (intro conjI allI impI)
  show "KubernetesSubnets ParseCIDR [] [] = None"
    by (simp add: KubernetesSubnets_def checkPodCIDR_def checkServiceCIDR_def)
next
  fix sn assume "ParseCIDR serviceCIDR = Some sn"
  then show "KubernetesSubnets ParseCIDR [] serviceCIDR = None"
    by (simp add: KubernetesSubnets_def checkPodCIDR_def checkServiceCIDR_def)
next
  show "KubernetesSubnets ParseCIDR podCIDR serviceCIDR \<noteq> None \<longleftrightarrow>
            (podCIDR \<noteq> [] \<and> ParseCIDR podCIDR = None)
          \<or> (\<exists>podNet. ParseCIDR podCIDR = Some podNet \<and> 16 < fst (Size (Mask podNet)))
          \<or> (serviceCIDR \<noteq> [] \<and> ParseCIDR serviceCIDR = None)
          \<or> (podCIDR \<noteq> [] \<and> serviceCIDR \<noteq> [] \<and>
              (\<exists>pn sn. ParseCIDR podCIDR = Some pn \<and> ParseCIDR serviceCIDR = Some sn
                 \<and> (Contains pn (IP sn) \<or> Contains sn (IP pn))))"
    using assms
    by (cases "podCIDR = []"; cases "serviceCIDR = []";
        cases "ParseCIDR podCIDR"; cases "ParseCIDR serviceCIDR")
       (auto simp: KubernetesSubnets_def checkPodCIDR_def checkServiceCIDR_def
             split: prod.splits)
qed

text \<open>
  The theorem on concrete subnets, with the IPv4 parser: the overlapping pair of the
  repository's test is rejected, and a service subnet of a single address is accepted.
\<close>

theorem KubernetesSubnets_error_iff_witness:
  "KubernetesSubnets ParseCIDR4 ''10.100.0.0/16'' ''10.100.100.0/16'' \<noteq> None
   \<and> KubernetesSubnets ParseCIDR4 [] [] = None
   \<and> KubernetesSubnets ParseCIDR4 [] ''10.100.100.7/32'' = None"
proof -
  have h: "ParseCIDR4 [] = None" by code_simp
  have p: "ParseCIDR4 ''10.100.0.0/16'' = Some \<lparr>IP = [10, 100, 0, 0], Mask = [255, 255, 0, 0]\<rparr>"
    by code_simp
  have s: "ParseCIDR4 ''10.100.100.0/16'' = Some \<lparr>IP = [10, 100, 0, 0], Mask = [255, 255, 0, 0]\<rparr>"
    by code_simp
  have c: "Contains \<lparr>IP = [10, 100, 0, 0], Mask = [255, 255, 0, 0]\<rparr> [10, 100, 0, 0]"
    by code_simp
  have t: "ParseCIDR4 ''10.100.100.7/32'' = Some \<lparr>IP = [10, 100, 100, 7], Mask = [255, 255, 255, 255]\<rparr>"
    by code_simp
  from KubernetesSubnets_error_iff [of ParseCIDR4 "''10.100.0.0/16''" "''10.100.100.0/16''", OF h] p s c
  have 1: "KubernetesSubnets ParseCIDR4 ''10.100.0.0/16'' ''10.100.100.0/16'' \<noteq> None"
    by simp
  from KubernetesSubnets_error_iff [of ParseCIDR4 "[]" "''10.100.100.7/32''", OF h] t
  have 2: "KubernetesSubnets ParseCIDR4 [] [] = None"
    and 3: "KubernetesSubnets ParseCIDR4 [] ''10.100.100.7/32'' = None"
    by simp_all
  from 1 2 3 show ?thesis by simp
qed

text \<open>
  C9. \<open>ClusterConfiguration\<close> returns an error whenever the pod subnet of the update
  equals the existing pod subnet or the service subnet of the update equals the
  existing service subnet, whatever the other fields, the parser and the emptiness
  test are; two empty strings are equal, so an update that leaves a subnet unset where
  the cluster has none set is rejected.
\<close>

theorem ClusterConfiguration_same_subnet_rejected:
  assumes "PodCIDR (GetGlobalConfig upd) = PodCIDR (GetGlobalConfig existing)
         \<or> ServiceCIDR (GetGlobalConfig upd) = ServiceCIDR (GetGlobalConfig existing)"
  shows "ClusterConfiguration ParseCIDR IsEmpty existing upd \<noteq> None"
  using assms by (auto simp: ClusterConfiguration_def Let_def)

text \<open>Both subnets unset on both sides: the update, which sets a cloud provider only, is rejected.\<close>

theorem ClusterConfiguration_same_subnet_rejected_witness:
  "ClusterConfiguration ParseCIDR4 (\<lambda>g. False)
     \<lparr>GetGlobalConfig = \<lparr>CloudProvider = ''aws'', CloudConfig = [], PodCIDR = [], ServiceCIDR = []\<rparr>\<rparr>
     \<lparr>GetGlobalConfig = \<lparr>CloudProvider = ''aws'', CloudConfig = ''[Global]'', PodCIDR = [],
                          ServiceCIDR = []\<rparr>\<rparr>
   \<noteq> None"
  by (rule ClusterConfiguration_same_subnet_rejected) simp

section \<open>Already-exists is not an error (C1)\<close>

subsection \<open>Steps of Execute that do not read the changed collaborators\<close>

lemma orReturn_simps:
  "orReturn (Some err, w) msg rest = (Some (Wrap err msg), w)"
  "orReturn (None, w) msg rest = rest w"
  by (simp_all add: orReturn_def)

lemma createAdminAgent_forgiving:
  "createAdminAgent L (p\<lparr>Users := forgivingUsers (Users p)\<rparr>) w = createAdminAgent L p w"
  by (simp add: createAdminAgent_def forgivingUsers_def Let_def split: prod.splits option.splits)

lemma initRPCCredentials_forgiving:
  "initRPCCredentials (S\<lparr>InitCredentials := forgivingCredentials (InitCredentials S)\<rparr>) p w
     = initRPCCredentials S p w"
  by (simp add: initRPCCredentials_def forgivingCredentials_def split: prod.splits sum.splits)

lemma Execute_forgiving:
  "Execute L (S\<lparr>InitCredentials := forgivingCredentials (InitCredentials S)\<rparr>)
       (p\<lparr>Users := forgivingUsers (Users p)\<rparr>) ctx w = Execute L S p ctx w"
proof -
  let ?S = "S\<lparr>InitCredentials := forgivingCredentials (InitCredentials S)\<rparr>"
  let ?p = "p\<lparr>Users := forgivingUsers (Users p)\<rparr>"
  have 1: "removeLegacyUpdateDirectory L ?S = removeLegacyUpdateDirectory L S"
    by (rule ext) (simp add: removeLegacyUpdateDirectory_def Let_def split: sum.splits prod.splits option.splits)
  have 2: "createAdminAgent L ?p = createAdminAgent L p"
    by (rule ext) (rule createAdminAgent_forgiving)
  have 3: "upsertServiceUser L ?S ?p = upsertServiceUser L S p"
    by (rule ext) (simp add: upsertServiceUser_def split: sum.splits prod.splits option.splits)
  have 4: "initRPCCredentials ?S ?p = initRPCCredentials S p"
    by (rule ext) (simp add: initRPCCredentials_def forgivingCredentials_def split: prod.splits sum.splits)
  have 5: "updateClusterRoles L ?p = updateClusterRoles L p"
    by (rule ext) (simp add: updateClusterRoles_def Let_def split: sum.splits prod.splits option.splits)
  have 6: "updateClusterDNSConfig L ?p = updateClusterDNSConfig L p"
    by (rule ext) (simp add: updateClusterDNSConfig_def split: sum.splits prod.splits option.splits)
  have 7: "updateDockerConfig L ?p = updateDockerConfig L p"
    by (rule ext) (simp add: updateDockerConfig_def split: sum.splits prod.splits option.splits)
  have i: "\<And>q. invalidPeers ?p q = invalidPeers p q"
    subgoal for q by (induction q) simp_all done
  have d: "\<And>q e v. deleteInvalidPeers ?p q e v = deleteInvalidPeers p q e v"
    subgoal for q e v by (induction q arbitrary: e v) (simp_all add: i split: prod.splits option.splits) done
  have 8: "removeInvalidObjectPeers ?p = removeInvalidObjectPeers p"
    by (rule ext) (simp add: removeInvalidObjectPeers_def d split: sum.splits)
  have 9: "\<And>i. Server_Execute L ?S i ctx = Server_Execute L S i ctx"
    by (rule ext) (simp add: Server_Execute_def updateExistingPackageLabels_def
        updateRuntimeConfigLabels_def updateTeleportConfigLabels_def updateRuntimeSecretLabels_def
        Let_def split: sum.splits prod.splits option.splits)
  show ?thesis
    unfolding Execute_def 1 2 3 4 5 6 7 8 9 by simp
qed

text \<open>
  C1. In \<open>createAdminAgent\<close> and \<open>initRPCCredentials\<close> an already-exists error of the
  collaborator gives \<open>nil\<close>, and an error of any other kind is returned, wrapped.
  \<open>Execute\<close> cannot tell an already-exists error of either collaborator from its
  success: it runs the same with collaborators that report success instead. An error
  the first helper returns ends \<open>Execute\<close> with that error; so does one of the second
  helper when the steps before it succeeded. After an already-exists error of the users
  service \<open>Execute\<close> goes on with \<open>upsertServiceUser\<close> and every step after it, in the
  world the call left; after an already-exists error of \<open>rpc.InitCredentials\<close> it goes
  on with \<open>updateClusterRoles\<close> and every step after it.
\<close>

theorem already_exists_is_not_an_error:
  "(\<forall>err w'. adminAgentCall L p w = (Some err, w') \<and> IsAlreadyExists err
       \<longrightarrow> createAdminAgent L p w = (None, w'))
 \<and> (\<forall>err w'. adminAgentCall L p w = (Some err, w') \<and> \<not> IsAlreadyExists err
       \<longrightarrow> createAdminAgent L p w = (Some (Wrap err []), w'))
 \<and> (\<forall>err w'. InitCredentials S (Packages p) w = (Inl err, w') \<and> IsAlreadyExists err
       \<longrightarrow> initRPCCredentials S p w = (None, w'))
 \<and> (\<forall>err w'. InitCredentials S (Packages p) w = (Inl err, w') \<and> \<not> IsAlreadyExists err
       \<longrightarrow> initRPCCredentials S p w = (Some (Wrap err []), w'))
 \<and> Execute L (S\<lparr>InitCredentials := forgivingCredentials (InitCredentials S)\<rparr>)
      (p\<lparr>Users := forgivingUsers (Users p)\<rparr>) ctx w = Execute L S p ctx w
 \<and> (\<forall>err w1. createAdminAgent L p (snd (removeLegacyUpdateDirectory L S w)) = (Some err, w1)
       \<longrightarrow> Execute L S p ctx w
            = (Some (Wrap err ''failed to create cluster admin agent''), w1))
 \<and> (\<forall>err w1 w2 w3.
        createAdminAgent L p (snd (removeLegacyUpdateDirectory L S w)) = (None, w1)
      \<and> upsertServiceUser L S p w1 = (None, w2)
      \<and> initRPCCredentials S p w2 = (Some err, w3)
       \<longrightarrow> Execute L S p ctx w = (Some (Wrap err ''failed to init RPC credentials''), w3))
 \<and> (\<forall>err w1.
        adminAgentCall L p (snd (removeLegacyUpdateDirectory L S w)) = (Some err, w1)
      \<and> IsAlreadyExists err
       \<longrightarrow> Execute L S p ctx w
          = orReturn (upsertServiceUser L S p w1) ''failed to upsert service user'' (\<lambda>w2.
              orReturn (initRPCCredentials S p w2) ''failed to init RPC credentials'' (\<lambda>w3.
              orReturn (updateClusterRoles L p w3) ''failed to update RPC credentials'' (\<lambda>w4.
              orReturn (updateClusterDNSConfig L p w4) ''failed to update DNS configuration'' (\<lambda>w5.
              orReturn (updateDockerConfig L p w5) ''failed to update Docker configuration'' (\<lambda>w6.
              orReturn (removeInvalidObjectPeers p w6) ''failed to clean up object peers'' (\<lambda>w7.
                (case init p of
                   None \<Rightarrow> (None, w7)
                 | Some i \<Rightarrow> orReturn (Server_Execute L S i ctx w7) [] (\<lambda>w8. (None, w8))))))))))
 \<and> (\<forall>err w1 w2 w3.
        createAdminAgent L p (snd (removeLegacyUpdateDirectory L S w)) = (None, w1)
      \<and> upsertServiceUser L S p w1 = (None, w2)
      \<and> InitCredentials S (Packages p) w2 = (Inl err, w3) \<and> IsAlreadyExists err
       \<longrightarrow> Execute L S p ctx w
          = orReturn (updateClusterRoles L p w3) ''failed to update RPC credentials'' (\<lambda>w4.
              orReturn (updateClusterDNSConfig L p w4) ''failed to update DNS configuration'' (\<lambda>w5.
              orReturn (updateDockerConfig L p w5) ''failed to update Docker configuration'' (\<lambda>w6.
              orReturn (removeInvalidObjectPeers p w6) ''failed to clean up object peers'' (\<lambda>w7.
                (case init p of
                   None \<Rightarrow> (None, w7)
                 | Some i \<Rightarrow> orReturn (Server_Execute L S i ctx w7) [] (\<lambda>w8. (None, w8))))))))"
proof (intro conjI allI impI)
  fix err w'
  assume "adminAgentCall L p w = (Some err, w') \<and> IsAlreadyExists err"
  then show "createAdminAgent L p w = (None, w')"
    by (simp add: createAdminAgent_def adminAgentCall_def Let_def)
next
  fix err w'
  assume "adminAgentCall L p w = (Some err, w') \<and> \<not> IsAlreadyExists err"
  then show "createAdminAgent L p w = (Some (Wrap err []), w')"
    by (simp add: createAdminAgent_def adminAgentCall_def Let_def)
next
  fix err w'
  assume "InitCredentials S (Packages p) w = (Inl err, w') \<and> IsAlreadyExists err"
  then show "initRPCCredentials S p w = (None, w')"
    by (simp add: initRPCCredentials_def)
next
  fix err w'
  assume "InitCredentials S (Packages p) w = (Inl err, w') \<and> \<not> IsAlreadyExists err"
  then show "initRPCCredentials S p w = (Some (Wrap err []), w')"
    by (simp add: initRPCCredentials_def)
next
  show "Execute L (S\<lparr>InitCredentials := forgivingCredentials (InitCredentials S)\<rparr>)
      (p\<lparr>Users := forgivingUsers (Users p)\<rparr>) ctx w = Execute L S p ctx w"
    by (rule Execute_forgiving)
next
  fix err w1
  assume "createAdminAgent L p (snd (removeLegacyUpdateDirectory L S w)) = (Some err, w1)"
  then show "Execute L S p ctx w = (Some (Wrap err ''failed to create cluster admin agent''), w1)"
    by (cases "removeLegacyUpdateDirectory L S w") (simp add: Execute_def orReturn_simps)
next
  fix err w1 w2 w3
  assume "createAdminAgent L p (snd (removeLegacyUpdateDirectory L S w)) = (None, w1)
      \<and> upsertServiceUser L S p w1 = (None, w2)
      \<and> initRPCCredentials S p w2 = (Some err, w3)"
  then show "Execute L S p ctx w = (Some (Wrap err ''failed to init RPC credentials''), w3)"
    by (cases "removeLegacyUpdateDirectory L S w") (simp add: Execute_def orReturn_simps)
next
  fix err w1
  assume h: "adminAgentCall L p (snd (removeLegacyUpdateDirectory L S w)) = (Some err, w1)
      \<and> IsAlreadyExists err"
  then have "createAdminAgent L p (snd (removeLegacyUpdateDirectory L S w)) = (None, w1)"
    by (simp add: createAdminAgent_def adminAgentCall_def Let_def)
  then show "Execute L S p ctx w
          = orReturn (upsertServiceUser L S p w1) ''failed to upsert service user'' (\<lambda>w2.
              orReturn (initRPCCredentials S p w2) ''failed to init RPC credentials'' (\<lambda>w3.
              orReturn (updateClusterRoles L p w3) ''failed to update RPC credentials'' (\<lambda>w4.
              orReturn (updateClusterDNSConfig L p w4) ''failed to update DNS configuration'' (\<lambda>w5.
              orReturn (updateDockerConfig L p w5) ''failed to update Docker configuration'' (\<lambda>w6.
              orReturn (removeInvalidObjectPeers p w6) ''failed to clean up object peers'' (\<lambda>w7.
                (case init p of
                   None \<Rightarrow> (None, w7)
                 | Some i \<Rightarrow> orReturn (Server_Execute L S i ctx w7) [] (\<lambda>w8. (None, w8)))))))))"
    by (cases "removeLegacyUpdateDirectory L S w") (simp add: Execute_def orReturn_simps)
next
  fix err w1 w2 w3
  assume h: "createAdminAgent L p (snd (removeLegacyUpdateDirectory L S w)) = (None, w1)
      \<and> upsertServiceUser L S p w1 = (None, w2)
      \<and> InitCredentials S (Packages p) w2 = (Inl err, w3) \<and> IsAlreadyExists err"
  then have "initRPCCredentials S p w2 = (None, w3)"
    by (simp add: initRPCCredentials_def)
  with h show "Execute L S p ctx w
          = orReturn (updateClusterRoles L p w3) ''failed to update RPC credentials'' (\<lambda>w4.
              orReturn (updateClusterDNSConfig L p w4) ''failed to update DNS configuration'' (\<lambda>w5.
              orReturn (updateDockerConfig L p w5) ''failed to update Docker configuration'' (\<lambda>w6.
              orReturn (removeInvalidObjectPeers p w6) ''failed to clean up object peers'' (\<lambda>w7.
                (case init p of
                   None \<Rightarrow> (None, w7)
                 | Some i \<Rightarrow> orReturn (Server_Execute L S i ctx w7) [] (\<lambda>w8. (None, w8)))))))"
    by (cases "removeLegacyUpdateDirectory L S w") (simp add: Execute_def orReturn_simps)
qed

text \<open>
  On the in-memory cluster: the agent exists already and \<open>createAdminAgent\<close> returns
  \<open>nil\<close>; with a users service that denies access \<open>Execute\<close> returns that error. On
  the cluster after a run both the agent and the credentials exist already, and
  \<open>Execute\<close> runs to its end: the writes of the later steps are in the log.
\<close>

theorem already_exists_is_not_an_error_witness:
  "createAdminAgent testLib testPhase (oldWorld\<lparr>the_agents := [''agent@example.com'']\<rparr>)
     = (None, oldWorld\<lparr>the_agents := [''agent@example.com'']\<rparr>)
   \<and> Execute testLib testSys (testPhase\<lparr>Users := deniedUsers\<rparr>) () oldWorld
     = (Some (Wrap (Wrap (TraceErr AccessDeniedError ''access denied'' []) [])
                ''failed to create cluster admin agent''), oldWorld)
   \<and> Execute testLib testSys testPhase () upgradedWorld
     = (None, upgradedWorld\<lparr>the_calls := the_calls upgradedWorld
                 @ [''UpdateSite'', ''UpdateSite'', ''UpdatePackageLabels planet'']\<rparr>)"
proof -
  let ?w = "oldWorld\<lparr>the_agents := [''agent@example.com'']\<rparr>"
  let ?e = "TraceErr AlreadyExistsError ''user %v already exists'' [''agent@example.com'']"
  let ?s = "TraceErr AlreadyExistsError ''package %v already exists'' [''rpc-secrets'']"
  let ?end = "upgradedWorld\<lparr>the_calls := the_calls upgradedWorld
                 @ [''UpdateSite'', ''UpdateSite'', ''UpdatePackageLabels planet'']\<rparr>"
  have a: "adminAgentCall testLib testPhase ?w = (Some ?e, ?w)" by code_simp
  have b: "IsAlreadyExists ?e" by simp
  have c: "createAdminAgent testLib (testPhase\<lparr>Users := deniedUsers\<rparr>)
             (snd (removeLegacyUpdateDirectory testLib testSys oldWorld))
           = (Some (Wrap (TraceErr AccessDeniedError ''access denied'' []) []), oldWorld)"
    by code_simp
  have d: "adminAgentCall testLib testPhase
             (snd (removeLegacyUpdateDirectory testLib testSys upgradedWorld))
           = (Some ?e, upgradedWorld)"
    by code_simp
  have f: "createAdminAgent testLib testPhase
             (snd (removeLegacyUpdateDirectory testLib testSys upgradedWorld))
           = (None, upgradedWorld)
         \<and> upsertServiceUser testLib testSys testPhase upgradedWorld = (None, upgradedWorld)
         \<and> InitCredentials testSys (Packages testPhase) upgradedWorld = (Inl ?s, upgradedWorld)
         \<and> IsAlreadyExists ?s"
    by code_simp
  have g: "orReturn (upsertServiceUser testLib testSys testPhase upgradedWorld) ''failed to upsert service user'' (\<lambda>w2.
              orReturn (initRPCCredentials testSys testPhase w2) ''failed to init RPC credentials'' (\<lambda>w3.
              orReturn (updateClusterRoles testLib testPhase w3) ''failed to update RPC credentials'' (\<lambda>w4.
              orReturn (updateClusterDNSConfig testLib testPhase w4) ''failed to update DNS configuration'' (\<lambda>w5.
              orReturn (updateDockerConfig testLib testPhase w5) ''failed to update Docker configuration'' (\<lambda>w6.
              orReturn (removeInvalidObjectPeers testPhase w6) ''failed to clean up object peers'' (\<lambda>w7.
                (case init testPhase of
                   None \<Rightarrow> (None, w7)
                 | Some i \<Rightarrow> orReturn (Server_Execute testLib testSys i () w7) [] (\<lambda>w8. (None, w8))))))))) = (None, ?end)"
    by code_simp
  have k: "orReturn (updateClusterRoles testLib testPhase upgradedWorld) ''failed to update RPC credentials'' (\<lambda>w4.
              orReturn (updateClusterDNSConfig testLib testPhase w4) ''failed to update DNS configuration'' (\<lambda>w5.
              orReturn (updateDockerConfig testLib testPhase w5) ''failed to update Docker configuration'' (\<lambda>w6.
              orReturn (removeInvalidObjectPeers testPhase w6) ''failed to clean up object peers'' (\<lambda>w7.
                (case init testPhase of
                   None \<Rightarrow> (None, w7)
                 | Some i \<Rightarrow> orReturn (Server_Execute testLib testSys i () w7) [] (\<lambda>w8. (None, w8))))))) = (None, ?end)"
    by code_simp
  from already_exists_is_not_an_error [of testLib testPhase ?w testSys "()"] a b
  have 1: "createAdminAgent testLib testPhase ?w = (None, ?w)" by blast
  from already_exists_is_not_an_error
         [of testLib "testPhase\<lparr>Users := deniedUsers\<rparr>" oldWorld testSys "()"] c
  have 2: "Execute testLib testSys (testPhase\<lparr>Users := deniedUsers\<rparr>) () oldWorld
     = (Some (Wrap (Wrap (TraceErr AccessDeniedError ''access denied'' []) [])
                ''failed to create cluster admin agent''), oldWorld)" by blast
  note t = already_exists_is_not_an_error [of testLib testPhase upgradedWorld testSys "()"]
  from t d b have "Execute testLib testSys testPhase () upgradedWorld
          = orReturn (upsertServiceUser testLib testSys testPhase upgradedWorld) ''failed to upsert service user'' (\<lambda>w2.
              orReturn (initRPCCredentials testSys testPhase w2) ''failed to init RPC credentials'' (\<lambda>w3.
              orReturn (updateClusterRoles testLib testPhase w3) ''failed to update RPC credentials'' (\<lambda>w4.
              orReturn (updateClusterDNSConfig testLib testPhase w4) ''failed to update DNS configuration'' (\<lambda>w5.
              orReturn (updateDockerConfig testLib testPhase w5) ''failed to update Docker configuration'' (\<lambda>w6.
              orReturn (removeInvalidObjectPeers testPhase w6) ''failed to clean up object peers'' (\<lambda>w7.
                (case init testPhase of
                   None \<Rightarrow> (None, w7)
                 | Some i \<Rightarrow> orReturn (Server_Execute testLib testSys i () w7) [] (\<lambda>w8. (None, w8)))))))))"
    by blast
  from this g have 3: "Execute testLib testSys testPhase () upgradedWorld = (None, ?end)"
    by (rule trans)
  from t f have "Execute testLib testSys testPhase () upgradedWorld
          = orReturn (updateClusterRoles testLib testPhase upgradedWorld) ''failed to update RPC credentials'' (\<lambda>w4.
              orReturn (updateClusterDNSConfig testLib testPhase w4) ''failed to update DNS configuration'' (\<lambda>w5.
              orReturn (updateDockerConfig testLib testPhase w5) ''failed to update Docker configuration'' (\<lambda>w6.
              orReturn (removeInvalidObjectPeers testPhase w6) ''failed to clean up object peers'' (\<lambda>w7.
                (case init testPhase of
                   None \<Rightarrow> (None, w7)
                 | Some i \<Rightarrow> orReturn (Server_Execute testLib testSys i () w7) [] (\<lambda>w8. (None, w8)))))))"
    by blast
  from this k have "Execute testLib testSys testPhase () upgradedWorld = (None, ?end)"
    by (rule trans)
  with 1 2 show ?thesis by simp
qed

section \<open>PreCheck and PostCheck (C7)\<close>

lemma runCheck_noop: "runCheck p i c w = (None, w)"
  by (cases c; cases "fst c")
     (simp_all add: PreCheck_def PostCheck_def Server_PreCheck_def Server_PostCheck_def)

text \<open>
  C7. \<open>PreCheck\<close> and \<open>PostCheck\<close> of both executors return \<open>nil\<close> and leave the world
  as it is, for every executor, context and world; so does every run of any number of
  them in any order.
\<close>

theorem checks_are_noops:
  "PreCheck p ctx w = (None, w)
 \<and> PostCheck p ctx w = (None, w)
 \<and> Server_PreCheck i ctx w = (None, w)
 \<and> Server_PostCheck i ctx w = (None, w)
 \<and> runChecks p i cs w = (replicate (length cs) None, w)"
proof -
  have "runChecks p i cs w = (replicate (length cs) None, w)"
    by (induction cs arbitrary: w) (simp_all add: runCheck_noop)
  then show ?thesis
    by (simp add: PreCheck_def PostCheck_def Server_PreCheck_def Server_PostCheck_def)
qed

section \<open>Construction (C6)\<close>

text \<open>
  C6. \<open>NewUpdatePhaseInitLeader\<close> returns a bad-parameter error and no executor when
  the phase has no data, no package or no installed package, and
  \<open>NewUpdatePhaseInitServer\<close> does when the phase has data and its update data is \<open>nil\<close>
  or has no server; the error is the same for every operator, application service,
  backend, package service, users service and world. Where the phase has no data at
  all, \<open>NewUpdatePhaseInitServer\<close> returns no error: it reads \<open>p.Phase.Data.Update\<close>
  through the \<open>nil\<close> pointer and panics. \<open>NewUpdatePhaseInitLeader\<close> checks
  \<open>p.Phase.Data\<close> for \<open>nil\<close> first; the server constructor misses that check.
\<close>

theorem constructors_on_bad_input:
  "NewUpdatePhaseInitLeader L (p\<lparr>Phase := (Phase p)\<lparr>Data := None\<rparr>\<rparr>)
      operator apps backend localBackend pkgs localPkgs users w
     = Failed (BadParameter ''no application package specified for phase %v''
                 [phase_ID (Phase p)])
 \<and> NewUpdatePhaseInitLeader L (p\<lparr>Phase := (Phase p)\<lparr>Data := Some (d\<lparr>Package := None\<rparr>)\<rparr>\<rparr>)
      operator apps backend localBackend pkgs localPkgs users w
     = Failed (BadParameter ''no application package specified for phase %v''
                 [phase_ID (Phase p)])
 \<and> NewUpdatePhaseInitLeader L
      (p\<lparr>Phase := (Phase p)\<lparr>Data := Some (d\<lparr>Package := Some pkg, InstalledPackage := None\<rparr>)\<rparr>\<rparr>)
      operator apps backend localBackend pkgs localPkgs users w
     = Failed (BadParameter ''no installed application package specified for phase %v''
                 [phase_ID (Phase p)])
 \<and> NewUpdatePhaseInitServer (p\<lparr>Phase := (Phase p)\<lparr>Data := Some (d\<lparr>Update := None\<rparr>)\<rparr>\<rparr>)
      localPkgs cluster
     = Failed (BadParameter ''no server specified for phase %q'' [phase_ID (Phase p)])
 \<and> NewUpdatePhaseInitServer
      (p\<lparr>Phase := (Phase p)\<lparr>Data := Some (d\<lparr>Update := Some (u\<lparr>upd_Servers := []\<rparr>)\<rparr>)\<rparr>\<rparr>)
      localPkgs cluster
     = Failed (BadParameter ''no server specified for phase %q'' [phase_ID (Phase p)])
 \<and> NewUpdatePhaseInitServer (p\<lparr>Phase := (Phase p)\<lparr>Data := None\<rparr>\<rparr>) localPkgs cluster
     = Panic"
  by (simp add: NewUpdatePhaseInitLeader_def NewUpdatePhaseInitServer_def)

text \<open>
  The leader constructor dereferences \<open>nil\<close>, too, when the phase has data without
  update data: after its queries, at \<open>p.Phase.Data.Update.Servers\<close>.
\<close>

lemma NewUpdatePhaseInitLeader_nil_Update:
  assumes "Data (Phase p) = Some d" and "Package d = Some pkg"
    and "InstalledPackage d = Some installedPkg" and "Update d = None"
    and "op_GetLocalSite operator w = Inr cluster"
    and "GetSiteOperation operator (OperationKey L (Plan p)) w = Inr operation"
    and "GetCompletedInstallOperation operator cluster w = Inr installOperation"
    and "GetApp apps pkg w = Inr app" and "GetApp apps installedPkg w = Inr installedApplication"
  shows "NewUpdatePhaseInitLeader L p operator apps backend localBackend pkgs localPkgs users w
           = Panic"
  using assms by (simp add: NewUpdatePhaseInitLeader_def)

text \<open>
  With the collaborators of the in-memory cluster and a phase whose data is \<open>nil\<close>: the
  leader constructor returns its error, the server constructor panics.
\<close>

theorem constructors_on_bad_input_witness:
  "NewUpdatePhaseInitLeader testLib noDataParams testOperator testApps testBackend testBackend
      testPackages testPackages testUsers oldWorld
     = Failed (BadParameter ''no application package specified for phase %v'' [''/init''])
 \<and> NewUpdatePhaseInitServer noDataParams testPackages ''example.com'' = Panic"
proof -
  have e: "noDataParams\<lparr>Phase := (Phase noDataParams)\<lparr>Data := None\<rparr>\<rparr> = noDataParams"
    by (simp add: noDataParams_def)
  have i: "phase_ID (Phase noDataParams) = ''/init''" by (simp add: noDataParams_def)
  from constructors_on_bad_input
         [where p = noDataParams and L = testLib and operator = testOperator and apps = testApps
            and backend = testBackend and localBackend = testBackend and pkgs = testPackages
            and localPkgs = testPackages and users = testUsers and w = oldWorld
            and cluster = "''example.com''"]
  show ?thesis unfolding e i by simp
qed

section \<open>Cluster roles (C10)\<close>

lemma find_append_case:
  "find P (xs @ ys) = (case find P xs of Some x \<Rightarrow> Some x | None \<Rightarrow> find P ys)"
  by (induction xs) simp_all

lemma foldl_state_lookup:
  "foldl (\<lambda>state srv. state(AdvertiseIP srv \<mapsto> srv)) m servers ip =
     (case find (\<lambda>s. AdvertiseIP s = ip) (rev servers) of
        Some s \<Rightarrow> Some s
      | None \<Rightarrow> m ip)"
  by (induction servers arbitrary: m) (auto simp: find_append_case split: option.splits)

lemma planState_role:
  "ClusterRole (case planState servers ip of Some s \<Rightarrow> s | None \<Rightarrow> zeroServer)
     = planRole servers ip"
  by (simp add: planState_def planRole_def foldl_state_lookup zeroServer_def split: option.splits)

lemma setClusterRoles_length: "length (setClusterRoles state servers) = length servers"
  by (induction servers) (simp_all add: Let_def)

lemma setClusterRoles_nth:
  "i < length servers \<Longrightarrow>
   setClusterRoles (planState plan) servers ! i =
     (if ClusterRole (servers ! i) \<noteq> [] then servers ! i
      else (servers ! i)\<lparr>ClusterRole := planRole plan (AdvertiseIP (servers ! i))\<rparr>)"
proof (induction servers arbitrary: i)
  case Nil
  then show ?case by simp
next
  case (Cons srv rest)
  show ?case
  proof (cases i)
    case 0
    then show ?thesis by (simp add: Let_def planState_role)
  next
    case (Suc j)
    with Cons show ?thesis by (simp add: Let_def)
  qed
qed

lemma find_SomeD: "find P xs = Some x \<Longrightarrow> x \<in> set xs \<and> P x"
  by (induction xs) (auto split: if_splits)

lemma planRole_no_server:
  "ip \<notin> AdvertiseIP ` set servers \<Longrightarrow> planRole servers ip = []"
  by (auto simp: planRole_def split: option.splits dest!: find_SomeD)

lemma planRole_the_server:
  assumes "distinct (map AdvertiseIP servers)" and "s \<in> set servers"
  shows "planRole servers (AdvertiseIP s) = ClusterRole s"
proof (cases "find (\<lambda>x. AdvertiseIP x = AdvertiseIP s) (rev servers)")
  case None
  with assms(2) show ?thesis by (auto simp: find_None_iff)
next
  case (Some x)
  then have "x \<in> set servers" and "AdvertiseIP x = AdvertiseIP s"
    by (auto dest: find_SomeD)
  with assms have "x = s"
    by (auto simp: distinct_map dest: inj_onD)
  with Some show ?thesis by (simp add: planRole_def)
qed

text \<open>
  C10. When the cluster record is read, \<open>updateClusterRoles\<close> makes one write,
  \<open>UpdateSite\<close>, of the record it read with only the server list replaced, and returns
  the error of that write, if any, wrapped. The new list has the length of the old one;
  a server whose cluster role is not empty is the old server, and a server whose cluster
  role is empty is the old server with only the cluster role replaced by the plan's
  role for its advertise IP. That role is empty when no plan server has the address, and
  it is the role of the plan server with the address when the plan's addresses are
  distinct.
\<close>

theorem updateClusterRoles_frame:
  assumes "GetLocalSite (Backend p) (SystemAccountID L) w = Inr cluster"
  shows "(\<exists>servers.
           length servers = length (cs_Servers (ClusterState cluster))
         \<and> (\<forall>i < length servers.
              servers ! i =
                (if ClusterRole (cs_Servers (ClusterState cluster) ! i) \<noteq> []
                 then cs_Servers (ClusterState cluster) ! i
                 else (cs_Servers (ClusterState cluster) ! i)
                        \<lparr>ClusterRole :=
                           planRole (Servers p)
                             (AdvertiseIP (cs_Servers (ClusterState cluster) ! i))\<rparr>))
         \<and> updateClusterRoles L p w =
             (map_option (\<lambda>err. Wrap err [])
                (fst (UpdateSite (Backend p)
                        (cluster\<lparr>ClusterState := (ClusterState cluster)\<lparr>cs_Servers := servers\<rparr>\<rparr>) w)),
              snd (UpdateSite (Backend p)
                     (cluster\<lparr>ClusterState := (ClusterState cluster)\<lparr>cs_Servers := servers\<rparr>\<rparr>) w)))
       \<and> (\<forall>ip. ip \<notin> AdvertiseIP ` set (Servers p) \<longrightarrow> planRole (Servers p) ip = [])
       \<and> (\<forall>s. distinct (map AdvertiseIP (Servers p)) \<and> s \<in> set (Servers p)
              \<longrightarrow> planRole (Servers p) (AdvertiseIP s) = ClusterRole s)"
proof (intro conjI allI impI)
  let ?servers = "setClusterRoles (planState (Servers p)) (cs_Servers (ClusterState cluster))"
  have "length ?servers = length (cs_Servers (ClusterState cluster))"
    by (rule setClusterRoles_length)
  moreover have "\<forall>i < length ?servers.
              ?servers ! i =
                (if ClusterRole (cs_Servers (ClusterState cluster) ! i) \<noteq> []
                 then cs_Servers (ClusterState cluster) ! i
                 else (cs_Servers (ClusterState cluster) ! i)
                        \<lparr>ClusterRole :=
                           planRole (Servers p)
                             (AdvertiseIP (cs_Servers (ClusterState cluster) ! i))\<rparr>)"
    by (simp add: setClusterRoles_length setClusterRoles_nth)
  moreover have "updateClusterRoles L p w =
             (map_option (\<lambda>err. Wrap err [])
                (fst (UpdateSite (Backend p)
                        (cluster\<lparr>ClusterState := (ClusterState cluster)\<lparr>cs_Servers := ?servers\<rparr>\<rparr>) w)),
              snd (UpdateSite (Backend p)
                     (cluster\<lparr>ClusterState := (ClusterState cluster)\<lparr>cs_Servers := ?servers\<rparr>\<rparr>) w))"
    using assms by (simp add: updateClusterRoles_def Let_def split: prod.splits option.splits)
  ultimately show "\<exists>servers.
           length servers = length (cs_Servers (ClusterState cluster))
         \<and> (\<forall>i < length servers.
              servers ! i =
                (if ClusterRole (cs_Servers (ClusterState cluster) ! i) \<noteq> []
                 then cs_Servers (ClusterState cluster) ! i
                 else (cs_Servers (ClusterState cluster) ! i)
                        \<lparr>ClusterRole :=
                           planRole (Servers p)
                             (AdvertiseIP (cs_Servers (ClusterState cluster) ! i))\<rparr>))
         \<and> updateClusterRoles L p w =
             (map_option (\<lambda>err. Wrap err [])
                (fst (UpdateSite (Backend p)
                        (cluster\<lparr>ClusterState := (ClusterState cluster)\<lparr>cs_Servers := servers\<rparr>\<rparr>) w)),
              snd (UpdateSite (Backend p)
                     (cluster\<lparr>ClusterState := (ClusterState cluster)\<lparr>cs_Servers := servers\<rparr>\<rparr>) w))"
    by blast
next
  fix ip assume "ip \<notin> AdvertiseIP ` set (Servers p)"
  then show "planRole (Servers p) ip = []" by (rule planRole_no_server)
next
  fix s assume "distinct (map AdvertiseIP (Servers p)) \<and> s \<in> set (Servers p)"
  then show "planRole (Servers p) (AdvertiseIP s) = ClusterRole s"
    by (simp add: planRole_the_server)
qed

text \<open>On the in-memory cluster: both servers have no role yet and get the plan's.\<close>

theorem updateClusterRoles_frame_witness:
  "\<exists>servers.
      length servers = 2
    \<and> (\<forall>i < length servers.
          servers ! i =
            (if ClusterRole (cs_Servers (ClusterState (the_site oldWorld)) ! i) \<noteq> []
             then cs_Servers (ClusterState (the_site oldWorld)) ! i
             else (cs_Servers (ClusterState (the_site oldWorld)) ! i)
                    \<lparr>ClusterRole :=
                       planRole [node1, node2]
                         (AdvertiseIP (cs_Servers (ClusterState (the_site oldWorld)) ! i))\<rparr>))
    \<and> updateClusterRoles testLib testPhase oldWorld =
        (None, called ''UpdateSite''
           (oldWorld\<lparr>the_site := (the_site oldWorld)
              \<lparr>ClusterState := (ClusterState (the_site oldWorld))\<lparr>cs_Servers := servers\<rparr>\<rparr>\<rparr>))"
proof -
  have h: "GetLocalSite (Backend testPhase) (SystemAccountID testLib) oldWorld
             = Inr (the_site oldWorld)"
    by (simp add: testPhase_def testBackend_def)
  have u: "\<And>s. UpdateSite (Backend testPhase) s oldWorld
             = (None, called ''UpdateSite'' (oldWorld\<lparr>the_site := s\<rparr>))"
    by (simp add: testPhase_def testBackend_def)
  have l: "length (cs_Servers (ClusterState (the_site oldWorld))) = 2"
    by (simp add: oldWorld_def)
  have s: "Servers testPhase = [node1, node2]" by (simp add: testPhase_def)
  from updateClusterRoles_frame [OF h, THEN conjunct1] show ?thesis
    unfolding u l s by simp
qed

section \<open>Invalid object peers (C4)\<close>

lemma invalidPeers_single: "invalidPeers p [i] \<longleftrightarrow> i \<notin> set (existingPeers p)"
  by (simp add: StringInSlice_def)

lemma deleteInvalidPeers_attemptAll:
  "deleteInvalidPeers p ps errors w =
     (errors @ errorsOf (fst (attemptAll (DeletePeer (Backend p)) (invalidPeerIDs p ps) w)),
      snd (attemptAll (DeletePeer (Backend p)) (invalidPeerIDs p ps) w))"
proof (induction ps arbitrary: errors w)
  case Nil
  then show ?case by (simp add: invalidPeerIDs_def errorsOf_def)
next
  case (Cons q ps)
  show ?case
  proof (cases "peer_ID q \<in> set (existingPeers p)")
    case True
    then show ?thesis
      using Cons.IH [of errors w]
      by (simp add: invalidPeers_single del: invalidPeers.simps) (simp add: invalidPeerIDs_def)
  next
    case False
    obtain r w' where d: "DeletePeer (Backend p) (peer_ID q) w = (r, w')"
      by (cases "DeletePeer (Backend p) (peer_ID q) w")
    have ids: "invalidPeerIDs p (q # ps) = peer_ID q # invalidPeerIDs p ps"
      using False by (simp add: invalidPeerIDs_def)
    show ?thesis
    proof (cases r)
      case None
      with False d ids Cons.IH [of errors w'] show ?thesis
        by (simp add: invalidPeers_single errorsOf_def split: prod.splits del: invalidPeers.simps)
    next
      case (Some err)
      with False d ids Cons.IH [of "errors @ [err]" w'] show ?thesis
        by (simp add: invalidPeers_single errorsOf_def split: prod.splits del: invalidPeers.simps)
    qed
  qed
qed

lemma NewUpdatePhaseInitLeader_existingPeers:
  assumes "NewUpdatePhaseInitLeader L params operator apps backend localBackend pkgs localPkgs
             users w = Built q"
  shows "\<exists>d u. Data (Phase params) = Some d \<and> Update d = Some u
           \<and> existingPeers q = map (ObjectPeerID L) (fst (SplitServers L (upd_Servers u)))"
  using assms
  by (auto simp: NewUpdatePhaseInitLeader_def clusterPeers_def Let_def
           split: option.splits sum.splits prod.splits)

text \<open>
  C4. When the peers are read, \<open>removeInvalidObjectPeers\<close> calls \<open>DeletePeer\<close> on every
  peer that is not among the existing peers, in their order and whatever the earlier
  calls returned, and on no other peer; it returns the aggregate of exactly the errors
  of these calls, \<open>nil\<close> when (and only when) every call succeeded. The existing peers
  of an executor built by \<open>NewUpdatePhaseInitLeader\<close> are the object peer IDs of the
  masters among the servers of the update.
\<close>

theorem removeInvalidObjectPeers_attempts_all:
  assumes "GetPeers (Backend p) w = Inr ps"
  shows "removeInvalidObjectPeers p w =
           (NewAggregate
              (errorsOf (fst (attemptAll (DeletePeer (Backend p)) (invalidPeerIDs p ps) w))),
            snd (attemptAll (DeletePeer (Backend p)) (invalidPeerIDs p ps) w))
       \<and> (fst (removeInvalidObjectPeers p w) = None \<longleftrightarrow>
            list_all (\<lambda>r. r = None)
              (fst (attemptAll (DeletePeer (Backend p)) (invalidPeerIDs p ps) w)))
       \<and> set (invalidPeerIDs p ps) = peer_ID ` set ps - set (existingPeers p)
       \<and> (\<forall>L params operator apps backend localBackend pkgs localPkgs users w0.
            NewUpdatePhaseInitLeader L params operator apps backend localBackend pkgs localPkgs
              users w0 = Built p
            \<longrightarrow> (\<exists>d u. Data (Phase params) = Some d \<and> Update d = Some u
                  \<and> existingPeers p
                      = map (ObjectPeerID L) (fst (SplitServers L (upd_Servers u)))))"
proof (intro conjI allI impI)
  show e: "removeInvalidObjectPeers p w =
           (NewAggregate
              (errorsOf (fst (attemptAll (DeletePeer (Backend p)) (invalidPeerIDs p ps) w))),
            snd (attemptAll (DeletePeer (Backend p)) (invalidPeerIDs p ps) w))"
    using assms by (simp add: removeInvalidObjectPeers_def deleteInvalidPeers_attemptAll)
  show "fst (removeInvalidObjectPeers p w) = None \<longleftrightarrow>
            list_all (\<lambda>r. r = None)
              (fst (attemptAll (DeletePeer (Backend p)) (invalidPeerIDs p ps) w))"
    unfolding e by (auto simp: NewAggregate_def errorsOf_def filter_empty_conv list_all_iff)
  show "set (invalidPeerIDs p ps) = peer_ID ` set ps - set (existingPeers p)"
    by (auto simp: invalidPeerIDs_def)
next
  fix L params operator apps backend localBackend pkgs localPkgs users w0
  assume "NewUpdatePhaseInitLeader L params operator apps backend localBackend pkgs localPkgs
              users w0 = Built p"
  then show "\<exists>d u. Data (Phase params) = Some d \<and> Update d = Some u
                  \<and> existingPeers p
                      = map (ObjectPeerID L) (fst (SplitServers L (upd_Servers u)))"
    by (rule NewUpdatePhaseInitLeader_existingPeers)
qed

text \<open>
  On the in-memory cluster: of the three peers one is a master's and stays; deleting
  the second fails, the third is deleted all the same, and the one error is returned.
\<close>

theorem removeInvalidObjectPeers_attempts_all_witness:
  "removeInvalidObjectPeers testPhase oldWorld =
     (Some (Aggregate [TraceErr ConnectionProblemError ''peer %v is busy'' [''stuck'']]),
      oldWorld\<lparr>the_peers := [\<lparr>peer_ID = ''10.0.0.1'', AdvertiseAddr = ''10.0.0.1:3009''\<rparr>,
                              \<lparr>peer_ID = ''stuck'', AdvertiseAddr = ''10.0.0.8:3009''\<rparr>],
                the_calls := [''DeletePeer stuck'', ''DeletePeer 10.0.0.9'']\<rparr>)"
proof -
  have h: "GetPeers (Backend testPhase) oldWorld = Inr (the_peers oldWorld)"
    by (simp add: testPhase_def testBackend_def)
  have r: "(NewAggregate
              (errorsOf (fst (attemptAll (DeletePeer (Backend testPhase))
                                (invalidPeerIDs testPhase (the_peers oldWorld)) oldWorld))),
            snd (attemptAll (DeletePeer (Backend testPhase))
                   (invalidPeerIDs testPhase (the_peers oldWorld)) oldWorld))
         = (Some (Aggregate [TraceErr ConnectionProblemError ''peer %v is busy'' [''stuck'']]),
      oldWorld\<lparr>the_peers := [\<lparr>peer_ID = ''10.0.0.1'', AdvertiseAddr = ''10.0.0.1:3009''\<rparr>,
                              \<lparr>peer_ID = ''stuck'', AdvertiseAddr = ''10.0.0.8:3009''\<rparr>],
                the_calls := [''DeletePeer stuck'', ''DeletePeer 10.0.0.9'']\<rparr>)"
    by code_simp
  from removeInvalidObjectPeers_attempts_all [OF h, THEN conjunct1] r show ?thesis
    by (rule trans)
qed

section \<open>Label updates are absent-safe (C5)\<close>

lemma applyLabelUpdates_all:
  "list_all passes (fst (attemptAll (labelCall packages) us w)) \<Longrightarrow>
   applyLabelUpdates packages us w = (None, snd (attemptAll (labelCall packages) us w))"
proof (induction us arbitrary: w)
  case Nil
  then show ?case by simp
next
  case (Cons u us)
  obtain r w' where c: "labelCall packages u w = (r, w')"
    by (cases "labelCall packages u w")
  with Cons.prems have p: "passes r"
    and rest: "list_all passes (fst (attemptAll (labelCall packages) us w'))"
    by (simp_all split: prod.splits)
  from Cons.IH [OF rest] c p show ?case
    by (cases r) (simp_all add: labelCall_def passes_def split: prod.splits)
qed

lemma applyLabelUpdates_abort:
  assumes "applyLabelUpdates packages pre w = (None, w1)"
    and "labelCall packages u w1 = (Some err, w2)"
    and "\<not> IsNotFound err"
  shows "applyLabelUpdates packages (pre @ u # post) w = (Some (Wrap err []), w2)"
  using assms
proof (induction pre arbitrary: w)
  case Nil
  then show ?case by (simp add: labelCall_def)
next
  case (Cons v pre)
  obtain r w' where c: "UpdatePackageLabels packages (upd_Locator v) (Add v) (Remove v) w = (r, w')"
    by (cases "UpdatePackageLabels packages (upd_Locator v) (Add v) (Remove v) w")
  show ?case
  proof (cases r)
    case None
    with c Cons.prems(1) have "applyLabelUpdates packages pre w' = (None, w1)" by simp
    from Cons.IH [OF this Cons.prems(2,3)] c None show ?thesis by simp
  next
    case (Some e)
    with c Cons.prems(1) have nf: "IsNotFound e"
      and "applyLabelUpdates packages pre w' = (None, w1)"
      by (auto split: if_splits)
    from Cons.IH [OF this(2) Cons.prems(2,3)] c Some nf show ?thesis by simp
  qed
qed

text \<open>
  C5. The loop over the label updates goes on after a not-found error: when every call
  succeeds or fails with a not-found error, every update is applied, in order, and the
  result is \<open>nil\<close>. The first error of another kind ends the loop and is returned,
  wrapped; the updates after it are not applied. \<open>updateExistingPackageLabels\<close> runs
  this loop on the list it puts together from the three searches. In
  \<open>updateRuntimeConfigLabels\<close> and \<open>updateRuntimeSecretLabels\<close> a not-found error of the
  search for the installed package is no failure: the first falls back to the first
  configuration package, the second marks the secrets package as installed; an error of
  another kind is returned, wrapped.
\<close>

theorem label_updates_absent_safe:
  "(list_all passes (fst (attemptAll (labelCall packages) us w))
      \<longrightarrow> applyLabelUpdates packages us w = (None, snd (attemptAll (labelCall packages) us w)))
 \<and> (\<forall>pre u post err w1 w2.
        us = pre @ u # post
      \<and> applyLabelUpdates packages pre w = (None, w1)
      \<and> labelCall packages u w1 = (Some err, w2) \<and> \<not> IsNotFound err
      \<longrightarrow> applyLabelUpdates packages us w = (Some (Wrap err []), w2))
 \<and> (\<forall>a b c.
        updateRuntimeConfigLabels L S (localPackages i) (Installed (Runtime (server i))) w = Inr a
      \<and> updateTeleportConfigLabels L S (localPackages i) (clusterName i) w = Inr b
      \<and> updateRuntimeSecretLabels L S (localPackages i) w = Inr c
      \<longrightarrow> updateExistingPackageLabels L S i w
          = applyLabelUpdates (localPackages i)
              (labelUpdates L (Installed (Runtime (server i))) a b c) w)
 \<and> (\<forall>err. FindInstalledConfigPackage S packages installedRuntime w = Inl err
      \<longrightarrow> updateRuntimeConfigLabels L S packages installedRuntime w
          = (if IsNotFound err
             then (case FindConfigPackage S packages installedRuntime w of
                     Inl err' \<Rightarrow> Inl (Wrap err' [])
                   | Inr runtimeConfig \<Rightarrow>
                       Inr [\<lparr>upd_Locator = runtimeConfig, Add = InstalledLabels L, Remove = []\<rparr>])
             else Inl (Wrap err [])))
 \<and> (\<forall>secretsPackage err.
        FindSecretsPackage S packages w = Inr secretsPackage
      \<and> FindInstalledPackage S packages secretsPackage w = Inl err
      \<longrightarrow> updateRuntimeSecretLabels L S packages w
          = (if IsNotFound err
             then Inr [\<lparr>upd_Locator = secretsPackage, Add = InstalledLabels L, Remove = []\<rparr>]
             else Inl (Wrap err [])))"
proof (intro conjI allI impI)
  assume "list_all passes (fst (attemptAll (labelCall packages) us w))"
  then show "applyLabelUpdates packages us w = (None, snd (attemptAll (labelCall packages) us w))"
    by (rule applyLabelUpdates_all)
next
  fix pre u post err w1 w2
  assume "us = pre @ u # post
      \<and> applyLabelUpdates packages pre w = (None, w1)
      \<and> labelCall packages u w1 = (Some err, w2) \<and> \<not> IsNotFound err"
  then show "applyLabelUpdates packages us w = (Some (Wrap err []), w2)"
    by (simp add: applyLabelUpdates_abort)
next
  fix a b c
  assume "updateRuntimeConfigLabels L S (localPackages i) (Installed (Runtime (server i))) w = Inr a
      \<and> updateTeleportConfigLabels L S (localPackages i) (clusterName i) w = Inr b
      \<and> updateRuntimeSecretLabels L S (localPackages i) w = Inr c"
  then show "updateExistingPackageLabels L S i w
          = applyLabelUpdates (localPackages i)
              (labelUpdates L (Installed (Runtime (server i))) a b c) w"
    by (simp add: updateExistingPackageLabels_def Let_def)
next
  fix err
  assume "FindInstalledConfigPackage S packages installedRuntime w = Inl err"
  then show "updateRuntimeConfigLabels L S packages installedRuntime w
          = (if IsNotFound err
             then (case FindConfigPackage S packages installedRuntime w of
                     Inl err' \<Rightarrow> Inl (Wrap err' [])
                   | Inr runtimeConfig \<Rightarrow>
                       Inr [\<lparr>upd_Locator = runtimeConfig, Add = InstalledLabels L, Remove = []\<rparr>])
             else Inl (Wrap err []))"
    by (simp add: updateRuntimeConfigLabels_def Let_def)
next
  fix secretsPackage err
  assume "FindSecretsPackage S packages w = Inr secretsPackage
      \<and> FindInstalledPackage S packages secretsPackage w = Inl err"
  then show "updateRuntimeSecretLabels L S packages w
          = (if IsNotFound err
             then Inr [\<lparr>upd_Locator = secretsPackage, Add = InstalledLabels L, Remove = []\<rparr>]
             else Inl (Wrap err []))"
    by (simp add: updateRuntimeSecretLabels_def)
qed

text \<open>
  On the in-memory cluster: the first update fails with a not-found error, the other
  two are applied, and the result is \<open>nil\<close>.
\<close>

theorem label_updates_absent_safe_witness:
  "fst (applyLabelUpdates testPackages testUpdates oldWorld) = None
 \<and> the_calls (snd (applyLabelUpdates testPackages testUpdates oldWorld))
     = [''UpdatePackageLabels teleport-node-config'', ''UpdatePackageLabels planet'']
 \<and> updateRuntimeSecretLabels testLib testSys testPackages oldWorld = Inr [hd testUpdates]"
proof -
  have h: "list_all passes (fst (attemptAll (labelCall testPackages) testUpdates oldWorld))"
    by code_simp
  have c: "the_calls (snd (attemptAll (labelCall testPackages) testUpdates oldWorld))
     = [''UpdatePackageLabels teleport-node-config'', ''UpdatePackageLabels planet'']"
    by code_simp
  have f: "FindSecretsPackage testSys testPackages oldWorld
             = Inr \<lparr>Repository = ''gravitational.io'', Name = ''planet-secrets'',
                      Version = ''0.0.1''\<rparr>
         \<and> FindInstalledPackage testSys testPackages
              \<lparr>Repository = ''gravitational.io'', Name = ''planet-secrets'', Version = ''0.0.1''\<rparr>
              oldWorld
             = Inl (TraceErr NotFoundError ''no installed package for %v'' [''planet-secrets''])"
    by (simp add: testSys_def)
  have g: "InstalledLabels testLib = [(''installed'', ''installed'')]"
    by (simp add: testLib_def)
  note t = label_updates_absent_safe
             [of testPackages testUpdates oldWorld testLib testSys testServer runtime1]
  from t h have 1: "applyLabelUpdates testPackages testUpdates oldWorld
                      = (None, snd (attemptAll (labelCall testPackages) testUpdates oldWorld))"
    by blast
  from t f have 2: "updateRuntimeSecretLabels testLib testSys testPackages oldWorld
          = (if IsNotFound (TraceErr NotFoundError ''no installed package for %v'' [''planet-secrets''])
             then Inr [\<lparr>upd_Locator = \<lparr>Repository = ''gravitational.io'', Name = ''planet-secrets'',
                      Version = ''0.0.1''\<rparr>, Add = InstalledLabels testLib, Remove = []\<rparr>]
             else Inl (Wrap (TraceErr NotFoundError ''no installed package for %v'' [''planet-secrets'']) []))"
    by blast
  from 1 c 2 g show ?thesis by (simp add: testUpdates_def)
qed

section \<open>Rollback (C3)\<close>

lemma foreachPackage_all:
  "list_all (\<lambda>r. r = None)
     (fst (attemptAll (DeletePackage (Packages p)) (operationPackages L p es) w)) \<Longrightarrow>
   foreachPackage (removeLabelled L p) es w =
     (None, snd (attemptAll (DeletePackage (Packages p)) (operationPackages L p es) w))"
proof (induction es arbitrary: w)
  case Nil
  then show ?case by (simp add: operationPackages_def)
next
  case (Cons e es)
  show ?case
  proof (cases "HasLabel L e (OperationIDLabel L) (ID (Operation p))")
    case False
    with Cons show ?thesis by (simp add: operationPackages_def removeLabelled_def)
  next
    case True
    obtain r w' where d: "DeletePackage (Packages p) (env_Locator e) w = (r, w')"
      by (cases "DeletePackage (Packages p) (env_Locator e) w")
    have ids: "operationPackages L p (e # es) = env_Locator e # operationPackages L p es"
      using True by (simp add: operationPackages_def)
    from Cons.prems d have r: "r = None"
      and rest: "list_all (\<lambda>r. r = None)
         (fst (attemptAll (DeletePackage (Packages p)) (operationPackages L p es) w'))"
      unfolding ids by (simp_all split: prod.splits)
    from Cons.IH [OF rest] d r True show ?thesis
      unfolding ids by (simp add: removeLabelled_def split: prod.splits)
  qed
qed

lemma foreachPackage_abort:
  assumes "foreachPackage (removeLabelled L p) pre w = (None, w1)"
    and "HasLabel L e (OperationIDLabel L) (ID (Operation p))"
    and "DeletePackage (Packages p) (env_Locator e) w1 = (Some err, w2)"
  shows "foreachPackage (removeLabelled L p) (pre @ e # post) w = (Some (Wrap err []), w2)"
  using assms
proof (induction pre arbitrary: w)
  case Nil
  then show ?case by (simp add: removeLabelled_def)
next
  case (Cons x pre)
  obtain r w' where c: "removeLabelled L p x w = (r, w')"
    by (cases "removeLabelled L p x w")
  with Cons.prems(1) have r: "r = None" and "foreachPackage (removeLabelled L p) pre w' = (None, w1)"
    by (cases r; simp)+
  from Cons.IH [OF this(2) Cons.prems(2,3)] c r show ?case by simp
qed

lemma removeConfiguredPackages_foreach:
  "GetPackages (Packages p) (SiteDomain (Operation p)) w = Inr es \<Longrightarrow>
   removeConfiguredPackages L p w = foreachPackage (removeLabelled L p) es w"
proof -
  have "(\<lambda>e w'. if HasLabel L e (OperationIDLabel L) (ID (Operation p))
               then DeletePackage (Packages p) (env_Locator e) w'
               else (None, w')) = removeLabelled L p"
    by (intro ext) (simp add: removeLabelled_def)
  then show "GetPackages (Packages p) (SiteDomain (Operation p)) w = Inr es \<Longrightarrow>
   removeConfiguredPackages L p w = foreachPackage (removeLabelled L p) es w"
    by (simp add: removeConfiguredPackages_def ForeachPackageInRepo_def)
qed

lemma Rollback_removeConfiguredPackages:
  "Rollback L p ctx w =
     (map_option (\<lambda>err. Wrap err []) (fst (removeConfiguredPackages L p w)),
      snd (removeConfiguredPackages L p w))"
  by (simp add: Rollback_def Server_Rollback_def split: option.splits prod.splits)

text \<open>
  C3. \<open>updatePhaseInitServer.Rollback\<close> returns \<open>nil\<close> and changes nothing.
  \<open>updatePhaseInit.Rollback\<close>, when the packages of the operation's repository are
  listed, calls \<open>DeletePackage\<close> on the packages that carry the operation-ID label with
  this operation's ID, in their order, and on no other: when these calls succeed it
  returns \<open>nil\<close>, and when there is no such package it changes nothing and returns
  \<open>nil\<close>. The first deletion that fails ends it with that error.
\<close>

theorem Rollback_removes_operation_packages:
  "Server_Rollback i ctx w = (None, w)
 \<and> (\<forall>es. GetPackages (Packages p) (SiteDomain (Operation p)) w = Inr es
        \<and> list_all (\<lambda>r. r = None)
            (fst (attemptAll (DeletePackage (Packages p)) (operationPackages L p es) w))
      \<longrightarrow> Rollback L p ctx w
          = (None, snd (attemptAll (DeletePackage (Packages p)) (operationPackages L p es) w)))
 \<and> (\<forall>es. GetPackages (Packages p) (SiteDomain (Operation p)) w = Inr es
        \<and> operationPackages L p es = []
      \<longrightarrow> Rollback L p ctx w = (None, w))
 \<and> (\<forall>pre e post err w1 w2.
        GetPackages (Packages p) (SiteDomain (Operation p)) w = Inr (pre @ e # post)
      \<and> list_all (\<lambda>r. r = None)
            (fst (attemptAll (DeletePackage (Packages p)) (operationPackages L p pre) w))
      \<and> snd (attemptAll (DeletePackage (Packages p)) (operationPackages L p pre) w) = w1
      \<and> HasLabel L e (OperationIDLabel L) (ID (Operation p))
      \<and> DeletePackage (Packages p) (env_Locator e) w1 = (Some err, w2)
      \<longrightarrow> Rollback L p ctx w = (Some (Wrap (Wrap err []) []), w2))"
proof (intro conjI allI impI)
  show "Server_Rollback i ctx w = (None, w)" by (simp add: Server_Rollback_def)
next
  fix es
  assume h: "GetPackages (Packages p) (SiteDomain (Operation p)) w = Inr es
        \<and> list_all (\<lambda>r. r = None)
            (fst (attemptAll (DeletePackage (Packages p)) (operationPackages L p es) w))"
  then show "Rollback L p ctx w
          = (None, snd (attemptAll (DeletePackage (Packages p)) (operationPackages L p es) w))"
    by (simp add: Rollback_removeConfiguredPackages removeConfiguredPackages_foreach
          foreachPackage_all)
next
  fix es
  assume h: "GetPackages (Packages p) (SiteDomain (Operation p)) w = Inr es
        \<and> operationPackages L p es = []"
  then have "list_all (\<lambda>r. r = None)
            (fst (attemptAll (DeletePackage (Packages p)) (operationPackages L p es) w))"
    by simp
  with h show "Rollback L p ctx w = (None, w)"
    by (simp add: Rollback_removeConfiguredPackages removeConfiguredPackages_foreach
          foreachPackage_all)
next
  fix pre e post err w1 w2
  assume h: "GetPackages (Packages p) (SiteDomain (Operation p)) w = Inr (pre @ e # post)
      \<and> list_all (\<lambda>r. r = None)
            (fst (attemptAll (DeletePackage (Packages p)) (operationPackages L p pre) w))
      \<and> snd (attemptAll (DeletePackage (Packages p)) (operationPackages L p pre) w) = w1
      \<and> HasLabel L e (OperationIDLabel L) (ID (Operation p))
      \<and> DeletePackage (Packages p) (env_Locator e) w1 = (Some err, w2)"
  then have "foreachPackage (removeLabelled L p) pre w = (None, w1)"
    by (simp add: foreachPackage_all)
  with h have "foreachPackage (removeLabelled L p) (pre @ e # post) w = (Some (Wrap err []), w2)"
    by (simp add: foreachPackage_abort)
  with h show "Rollback L p ctx w = (Some (Wrap (Wrap err []) []), w2)"
    by (simp add: Rollback_removeConfiguredPackages removeConfiguredPackages_foreach)
qed

text \<open>
  On the in-memory cluster: the one package labelled with the operation is deleted, the
  package of another operation stays; for an operation that configured nothing,
  nothing changes.
\<close>

theorem Rollback_removes_operation_packages_witness:
  "Rollback testLib testPhase () oldWorld
     = (None, oldWorld\<lparr>the_packages := filter (\<lambda>e. Name (env_Locator e) \<noteq> ''planet-config'')
                                          (the_packages oldWorld),
                       the_calls := [''DeletePackage planet-config'']\<rparr>)
 \<and> Rollback testLib (testPhase\<lparr>Operation := (Operation testPhase)\<lparr>ID := ''op-2''\<rparr>\<rparr>) () oldWorld
     = (None, oldWorld)"
proof -
  let ?es = "filter (\<lambda>e. Repository (env_Locator e) = ''example.com'') (the_packages oldWorld)"
  let ?q = "testPhase\<lparr>Operation := (Operation testPhase)\<lparr>ID := ''op-2''\<rparr>\<rparr>"
  have g: "GetPackages (Packages testPhase) (SiteDomain (Operation testPhase)) oldWorld = Inr ?es"
    by (simp add: testPhase_def testPackages_def)
  have g': "GetPackages (Packages ?q) (SiteDomain (Operation ?q)) oldWorld = Inr ?es"
    by (simp add: testPhase_def testPackages_def)
  have a: "list_all (\<lambda>r. r = None)
            (fst (attemptAll (DeletePackage (Packages testPhase))
                    (operationPackages testLib testPhase ?es) oldWorld))"
    by code_simp
  have b: "snd (attemptAll (DeletePackage (Packages testPhase))
                    (operationPackages testLib testPhase ?es) oldWorld)
         = oldWorld\<lparr>the_packages := filter (\<lambda>e. Name (env_Locator e) \<noteq> ''planet-config'')
                                          (the_packages oldWorld),
                       the_calls := [''DeletePackage planet-config'']\<rparr>"
    by code_simp
  have c: "operationPackages testLib ?q ?es = []"
    by code_simp
  from Rollback_removes_operation_packages [of testServer "()" oldWorld testPhase testLib] g a b
  have 1: "Rollback testLib testPhase () oldWorld
     = (None, oldWorld\<lparr>the_packages := filter (\<lambda>e. Name (env_Locator e) \<noteq> ''planet-config'')
                                          (the_packages oldWorld),
                       the_calls := [''DeletePackage planet-config'']\<rparr>)"
    by simp
  from Rollback_removes_operation_packages [of testServer "()" oldWorld ?q testLib] g' c
  have 2: "Rollback testLib ?q () oldWorld = (None, oldWorld)"
    by blast
  from 1 2 show ?thesis by (rule conjI)
qed

section \<open>Idempotence of the cluster-record updates (C2)\<close>

lemma setClusterRoles_idem:
  "setClusterRoles state (setClusterRoles state servers) = setClusterRoles state servers"
  by (induction servers) (simp_all add: Let_def)

lemma withRoles_idem: "withRoles p (withRoles p c) = withRoles p c"
  by (simp add: withRoles_def setClusterRoles_idem)

lemma withDNS_idem: "withDNS L p (withDNS L p c) = withDNS L p c"
  by (simp add: withDNS_def)

lemma withDocker_idem: "withDocker L p (withDocker L p c) = withDocker L p c"
  by (simp add: withDocker_def)

lemma converged_after:
  assumes "\<not> OSUser_IsEmpty L (ServiceUser c)"
  shows "converged L p (withDocker L p (withDNS L p (withRoles p c)))"
  using assms
  by (simp add: converged_def withDocker_def withDNS_def withRoles_def setClusterRoles_idem)

subsection \<open>What each step does to the stored record\<close>

lemma removeLegacy_stored:
  "keepsRecord L S p stored \<Longrightarrow> stored (snd (removeLegacyUpdateDirectory L S w)) = stored w"
  unfolding keepsRecord_def removeLegacyUpdateDirectory_def
  by (auto simp: Let_def split: sum.splits prod.splits option.splits)
     (metis snd_conv)+

lemma K_read:
  "keepsRecord L S p stored \<Longrightarrow> GetLocalSite (Backend p) (SystemAccountID L) w = Inr c
   \<Longrightarrow> c = stored w"
  unfolding keepsRecord_def by metis

lemma K_written:
  "keepsRecord L S p stored \<Longrightarrow> UpdateSite (Backend p) s w = (None, w')
   \<Longrightarrow> stored w' = s"
  unfolding keepsRecord_def by (metis fst_conv snd_conv)

lemma K_write_same:
  "keepsRecord L S p stored \<Longrightarrow> UpdateSite (Backend p) (stored w) w = (r, w')
   \<Longrightarrow> stored w' = stored w"
  unfolding keepsRecord_def by (metis snd_conv)

lemma createAdminAgent_stored:
  "keepsRecord L S p stored \<Longrightarrow> stored (snd (createAdminAgent L p w)) = stored w"
proof -
  assume K: "keepsRecord L S p stored"
  let ?call = "CreateClusterAdminAgent (Users p) (Domain_name (Cluster p))
                 (NewUser (ClusterAdminAgent L (Domain_name (Cluster p)))
                    (AccountID (Cluster p)) (Domain_name (Cluster p))) w"
  have "snd (createAdminAgent L p w) = snd ?call"
    by (simp add: createAdminAgent_def Let_def split: prod.splits option.splits)
  moreover from K have "stored (snd ?call) = stored w"
    unfolding keepsRecord_def by blast
  ultimately show ?thesis by simp
qed

lemma initRPCCredentials_stored:
  "keepsRecord L S p stored \<Longrightarrow> stored (snd (initRPCCredentials S p w)) = stored w"
proof -
  assume K: "keepsRecord L S p stored"
  have "snd (initRPCCredentials S p w) = snd (InitCredentials S (Packages p) w)"
    by (simp add: initRPCCredentials_def split: prod.splits sum.splits)
  moreover from K have "stored (snd (InitCredentials S (Packages p) w)) = stored w"
    unfolding keepsRecord_def by blast
  ultimately show ?thesis by simp
qed

lemma upsertServiceUser_converged:
  assumes K: "keepsRecord L S p stored" and c: "\<not> OSUser_IsEmpty L (ServiceUser (stored w))"
  shows "stored (snd (upsertServiceUser L S p w)) = stored w"
proof (cases "GetLocalSite (Backend p) (SystemAccountID L) w")
  case (Inl err)
  then show ?thesis by (simp add: upsertServiceUser_def)
next
  case (Inr cluster)
  with K have "cluster = stored w" by (rule K_read)
  with Inr c show ?thesis by (simp add: upsertServiceUser_def)
qed

lemma Itoa_not_empty: "Itoa i \<noteq> []"
proof -
  have "\<And>n. digits n \<noteq> []"
    subgoal for n by (subst digits.simps) simp
    done
  then show ?thesis by (simp add: Itoa_def)
qed

lemma upsertServiceUser_done:
  assumes K: "keepsRecord L S p stored"
    and ok: "upsertServiceUser L S p w = (None, w')"
    and numeric: "\<forall>u. UID u \<noteq> [] \<longrightarrow> \<not> OSUser_IsEmpty L u"
  shows "\<not> OSUser_IsEmpty L (ServiceUser (stored w'))"
proof (cases "GetLocalSite (Backend p) (SystemAccountID L) w")
  case (Inl err)
  with ok show ?thesis by (simp add: upsertServiceUser_def)
next
  case (Inr cluster)
  with K have cl: "cluster = stored w" by (rule K_read)
  show ?thesis
  proof (cases "OSUser_IsEmpty L (ServiceUser cluster)")
    case False
    with Inr ok cl show ?thesis by (simp add: upsertServiceUser_def)
  next
    case True
    obtain r w1 where g: "GetOrCreateServiceUser S (ServiceUserID L) (ServiceGroupID L) w = (r, w1)"
      by (cases "GetOrCreateServiceUser S (ServiceUserID L) (ServiceGroupID L) w")
    with Inr True ok obtain user where r: "r = Inr user"
      by (cases r) (simp_all add: upsertServiceUser_def)
    let ?s = "cluster\<lparr>ServiceUser :=
                 \<lparr>user_Name = sys_Name user, UID = Itoa (sys_UID user),
                  GID = Itoa (sys_GID user)\<rparr>\<rparr>"
    from Inr True g r ok have "UpdateSite (Backend p) ?s w1 = (None, w')"
      by (simp add: upsertServiceUser_def split: prod.splits option.splits)
    with K have "stored w' = ?s" by (rule K_written)
    with numeric show ?thesis by (simp add: Itoa_not_empty)
  qed
qed

lemma updateClusterRoles_converged:
  assumes K: "keepsRecord L S p stored" and c: "withRoles p (stored w) = stored w"
  shows "stored (snd (updateClusterRoles L p w)) = stored w"
proof (cases "GetLocalSite (Backend p) (SystemAccountID L) w")
  case (Inl err)
  then show ?thesis by (simp add: updateClusterRoles_def)
next
  case (Inr cluster)
  with K have cl: "cluster = stored w" by (rule K_read)
  obtain r w' where u: "UpdateSite (Backend p) (stored w) w = (r, w')"
    by (cases "UpdateSite (Backend p) (stored w) w")
  with K have "stored w' = stored w" by (rule K_write_same)
  moreover from Inr cl c u have "snd (updateClusterRoles L p w) = w'"
    by (simp add: updateClusterRoles_def withRoles_def Let_def split: option.splits)
  ultimately show ?thesis by simp
qed

lemma updateClusterRoles_done:
  assumes K: "keepsRecord L S p stored" and ok: "updateClusterRoles L p w = (None, w')"
  shows "stored w' = withRoles p (stored w)"
proof (cases "GetLocalSite (Backend p) (SystemAccountID L) w")
  case (Inl err)
  with ok show ?thesis by (simp add: updateClusterRoles_def)
next
  case (Inr cluster)
  with K have cl: "cluster = stored w" by (rule K_read)
  from Inr cl ok have "UpdateSite (Backend p) (withRoles p (stored w)) w = (None, w')"
    by (simp add: updateClusterRoles_def withRoles_def Let_def split: prod.splits option.splits)
  with K show ?thesis by (rule K_written)
qed

lemma updateClusterDNSConfig_converged:
  assumes K: "keepsRecord L S p stored" and c: "withDNS L p (stored w) = stored w"
  shows "stored (snd (updateClusterDNSConfig L p w)) = stored w"
proof (cases "GetLocalSite (Backend p) (SystemAccountID L) w")
  case (Inl err)
  then show ?thesis by (simp add: updateClusterDNSConfig_def)
next
  case (Inr cluster)
  with K have cl: "cluster = stored w" by (rule K_read)
  obtain r w' where u: "UpdateSite (Backend p) (stored w) w = (r, w')"
    by (cases "UpdateSite (Backend p) (stored w) w")
  with K have "stored w' = stored w" by (rule K_write_same)
  moreover from Inr cl c u have "snd (updateClusterDNSConfig L p w) = w'"
    unfolding updateClusterDNSConfig_def withDNS_def by (simp split: option.splits if_splits)
  ultimately show ?thesis by simp
qed

lemma updateClusterDNSConfig_done:
  assumes K: "keepsRecord L S p stored" and ok: "updateClusterDNSConfig L p w = (None, w')"
  shows "stored w' = withDNS L p (stored w)"
proof (cases "GetLocalSite (Backend p) (SystemAccountID L) w")
  case (Inl err)
  with ok show ?thesis by (simp add: updateClusterDNSConfig_def)
next
  case (Inr cluster)
  with K have cl: "cluster = stored w" by (rule K_read)
  from Inr cl ok have "UpdateSite (Backend p) (withDNS L p (stored w)) w = (None, w')"
    unfolding updateClusterDNSConfig_def withDNS_def
    by (simp split: prod.splits option.splits if_splits)
  with K show ?thesis by (rule K_written)
qed

lemma updateDockerConfig_converged:
  assumes K: "keepsRecord L S p stored" and c: "withDocker L p (stored w) = stored w"
  shows "stored (snd (updateDockerConfig L p w)) = stored w"
proof (cases "GetLocalSite (Backend p) (SystemAccountID L) w")
  case (Inl err)
  then show ?thesis by (simp add: updateDockerConfig_def)
next
  case (Inr cluster)
  with K have cl: "cluster = stored w" by (rule K_read)
  show ?thesis
  proof (cases "DockerConfig_IsEmpty L (Docker (ClusterState (stored w)))")
    case False
    with Inr cl show ?thesis by (simp add: updateDockerConfig_def)
  next
    case True
    obtain r w' where u: "UpdateSite (Backend p) (stored w) w = (r, w')"
      by (cases "UpdateSite (Backend p) (stored w) w")
    with K have "stored w' = stored w" by (rule K_write_same)
    moreover from True c have
      "(stored w)\<lparr>ClusterState := (ClusterState (stored w))\<lparr>Docker := existingDocker p\<rparr>\<rparr> = stored w"
      by (simp add: withDocker_def)
    with Inr cl True u have "snd (updateDockerConfig L p w) = w'"
      by (simp add: updateDockerConfig_def split: option.splits)
    ultimately show ?thesis by simp
  qed
qed

lemma updateDockerConfig_done:
  assumes K: "keepsRecord L S p stored" and ok: "updateDockerConfig L p w = (None, w')"
  shows "stored w' = withDocker L p (stored w)"
proof (cases "GetLocalSite (Backend p) (SystemAccountID L) w")
  case (Inl err)
  with ok show ?thesis by (simp add: updateDockerConfig_def)
next
  case (Inr cluster)
  with K have cl: "cluster = stored w" by (rule K_read)
  show ?thesis
  proof (cases "DockerConfig_IsEmpty L (Docker (ClusterState (stored w)))")
    case False
    with Inr cl ok show ?thesis by (simp add: updateDockerConfig_def withDocker_def)
  next
    case True
    with Inr cl ok have "UpdateSite (Backend p) (withDocker L p (stored w)) w = (None, w')"
      by (simp add: updateDockerConfig_def withDocker_def split: prod.splits option.splits)
    with K show ?thesis by (rule K_written)
  qed
qed

lemma deleteInvalidPeers_stored:
  "keepsRecord L S p stored \<Longrightarrow> stored (snd (deleteInvalidPeers p ps errors w)) = stored w"
proof (induction ps arbitrary: errors w)
  case Nil
  then show ?case by simp
next
  case (Cons q ps)
  from Cons.prems have d: "stored (snd (DeletePeer (Backend p) (peer_ID q) w)) = stored w"
    unfolding keepsRecord_def by blast
  show ?case
  proof (cases "invalidPeers p [peer_ID q]")
    case False
    with Cons show ?thesis by (simp del: invalidPeers.simps)
  next
    case True
    obtain r w' where c: "DeletePeer (Backend p) (peer_ID q) w = (r, w')"
      by (cases "DeletePeer (Backend p) (peer_ID q) w")
    with d have "stored w' = stored w" by simp
    with True c Cons.IH [OF Cons.prems] show ?thesis
      by (cases r) (simp_all del: invalidPeers.simps)
  qed
qed

lemma removeInvalidObjectPeers_stored:
  "keepsRecord L S p stored \<Longrightarrow> stored (snd (removeInvalidObjectPeers p w)) = stored w"
  using deleteInvalidPeers_stored [of L S p stored]
  by (simp add: removeInvalidObjectPeers_def split: sum.splits prod.splits) (metis snd_conv)

lemma applyLabelUpdates_stored:
  assumes "\<forall>l a r w. stored (snd (UpdatePackageLabels packages l a r w)) = stored w"
  shows "stored (snd (applyLabelUpdates packages us w)) = stored w"
proof (induction us arbitrary: w)
  case Nil
  then show ?case by simp
next
  case (Cons u us)
  obtain r w' where c: "UpdatePackageLabels packages (upd_Locator u) (Add u) (Remove u) w = (r, w')"
    by (cases "UpdatePackageLabels packages (upd_Locator u) (Add u) (Remove u) w")
  with assms have "stored w' = stored w" by (metis snd_conv)
  with c Cons.IH [of w'] show ?case by (cases r) simp_all
qed

lemma Server_Execute_stored:
  assumes K: "keepsRecord L S p stored" and i: "init p = Some i"
  shows "stored (snd (Server_Execute L S i ctx w)) = stored w"
proof -
  from K i have f: "\<forall>l a r w. stored (snd (UpdatePackageLabels (localPackages i) l a r w)) = stored w"
    unfolding keepsRecord_def by blast
  have "snd (Server_Execute L S i ctx w) = snd (updateExistingPackageLabels L S i w)"
    by (simp add: Server_Execute_def split: prod.splits option.splits)
  moreover have "stored (snd (updateExistingPackageLabels L S i w)) = stored w"
    using applyLabelUpdates_stored [OF f]
    by (simp add: updateExistingPackageLabels_def Let_def split: sum.splits)
  ultimately show ?thesis by simp
qed

subsection \<open>Execute on a converged record, and after a successful run\<close>

lemma orReturn_stored:
  assumes "stored (snd r) = c" and "\<And>w. stored w = c \<Longrightarrow> stored (snd (rest w)) = c"
  shows "stored (snd (orReturn r msg rest)) = c"
  using assms by (cases r; cases "fst r") (auto simp: orReturn_def)

lemma orReturn_NoneD:
  assumes "fst (orReturn r msg rest) = None"
  shows "\<exists>w'. r = (None, w') \<and> orReturn r msg rest = rest w'"
  using assms by (cases r; cases "fst r") (auto simp: orReturn_def)

lemma Execute_steps:
  "Execute L S p ctx w =
     orReturn (createAdminAgent L p (snd (removeLegacyUpdateDirectory L S w)))
       ''failed to create cluster admin agent'' (fromServiceUser L S p ctx)"
proof -
  have 7: "fromServer L S p ctx = (\<lambda>w7. case init p of
          None \<Rightarrow> (None, w7)
        | Some i \<Rightarrow> orReturn (Server_Execute L S i ctx w7) [] (\<lambda>w8. (None, w8)))"
    by (rule ext) (simp add: fromServer_def)
  have 6: "fromPeers L S p ctx = (\<lambda>w6. orReturn (removeInvalidObjectPeers p w6)
             ''failed to clean up object peers'' (fromServer L S p ctx))"
    by (rule ext) (simp add: fromPeers_def)
  have 5: "fromDocker L S p ctx = (\<lambda>w5. orReturn (updateDockerConfig L p w5)
             ''failed to update Docker configuration'' (fromPeers L S p ctx))"
    by (rule ext) (simp add: fromDocker_def)
  have 4: "fromDNS L S p ctx = (\<lambda>w4. orReturn (updateClusterDNSConfig L p w4)
             ''failed to update DNS configuration'' (fromDocker L S p ctx))"
    by (rule ext) (simp add: fromDNS_def)
  have 3: "fromRoles L S p ctx = (\<lambda>w3. orReturn (updateClusterRoles L p w3)
             ''failed to update RPC credentials'' (fromDNS L S p ctx))"
    by (rule ext) (simp add: fromRoles_def)
  have 2: "fromCredentials L S p ctx = (\<lambda>w2. orReturn (initRPCCredentials S p w2)
             ''failed to init RPC credentials'' (fromRoles L S p ctx))"
    by (rule ext) (simp add: fromCredentials_def)
  have 1: "fromServiceUser L S p ctx = (\<lambda>w1. orReturn (upsertServiceUser L S p w1)
             ''failed to upsert service user'' (fromCredentials L S p ctx))"
    by (rule ext) (simp add: fromServiceUser_def)
  show ?thesis
    unfolding 1 2 3 4 5 6 7 Execute_def
    by (cases "removeLegacyUpdateDirectory L S w") simp
qed

lemma fromServer_stored:
  assumes K: "keepsRecord L S p stored"
  shows "stored (snd (fromServer L S p ctx w)) = stored w"
proof (cases "init p")
  case None
  then show ?thesis by (simp add: fromServer_def)
next
  case (Some i)
  have "stored (snd (orReturn (Server_Execute L S i ctx w) [] (\<lambda>w8. (None, w8)))) = stored w"
    by (rule orReturn_stored) (simp_all add: Server_Execute_stored [OF K Some])
  with Some show ?thesis by (simp add: fromServer_def)
qed

lemma Execute_converged:
  assumes K: "keepsRecord L S p stored" and c: "converged L p (stored w)"
  shows "stored (snd (Execute L S p ctx w)) = stored w"
proof -
  from c have u: "\<not> OSUser_IsEmpty L (ServiceUser (stored w))"
    and r: "withRoles p (stored w) = stored w"
    and d: "withDNS L p (stored w) = stored w"
    and k: "withDocker L p (stored w) = stored w"
    by (simp_all add: converged_def)
  have 7: "\<And>v. stored v = stored w \<Longrightarrow> stored (snd (fromServer L S p ctx v)) = stored w"
    by (simp add: fromServer_stored [OF K])
  have 6: "\<And>v. stored v = stored w \<Longrightarrow> stored (snd (fromPeers L S p ctx v)) = stored w"
    unfolding fromPeers_def
    by (rule orReturn_stored) (simp_all add: removeInvalidObjectPeers_stored [OF K] 7)
  have 5: "\<And>v. stored v = stored w \<Longrightarrow> stored (snd (fromDocker L S p ctx v)) = stored w"
    unfolding fromDocker_def
    by (rule orReturn_stored) (simp_all add: updateDockerConfig_converged [OF K] k 6)
  have 4: "\<And>v. stored v = stored w \<Longrightarrow> stored (snd (fromDNS L S p ctx v)) = stored w"
    unfolding fromDNS_def
    by (rule orReturn_stored) (simp_all add: updateClusterDNSConfig_converged [OF K] d 5)
  have 3: "\<And>v. stored v = stored w \<Longrightarrow> stored (snd (fromRoles L S p ctx v)) = stored w"
    unfolding fromRoles_def
    by (rule orReturn_stored) (simp_all add: updateClusterRoles_converged [OF K] r 4)
  have 2: "\<And>v. stored v = stored w \<Longrightarrow> stored (snd (fromCredentials L S p ctx v)) = stored w"
    unfolding fromCredentials_def
    by (rule orReturn_stored) (simp_all add: initRPCCredentials_stored [OF K] 3)
  have 1: "\<And>v. stored v = stored w \<Longrightarrow> stored (snd (fromServiceUser L S p ctx v)) = stored w"
    unfolding fromServiceUser_def
    by (rule orReturn_stored) (simp_all add: upsertServiceUser_converged [OF K] u 2)
  show ?thesis
    unfolding Execute_steps
    by (rule orReturn_stored)
       (simp_all add: createAdminAgent_stored [OF K] removeLegacy_stored [OF K] 1)
qed

lemma Execute_success_converged:
  assumes K: "keepsRecord L S p stored"
    and numeric: "\<forall>u. UID u \<noteq> [] \<longrightarrow> \<not> OSUser_IsEmpty L u"
    and ok: "fst (Execute L S p ctx w) = None"
  shows "converged L p (stored (snd (Execute L S p ctx w)))"
proof -
  let ?w0 = "snd (removeLegacyUpdateDirectory L S w)"
  from ok have "fst (orReturn (createAdminAgent L p ?w0)
       ''failed to create cluster admin agent'' (fromServiceUser L S p ctx)) = None"
    by (simp only: Execute_steps)
  from orReturn_NoneD [OF this] obtain w1 where
    e1: "Execute L S p ctx w = fromServiceUser L S p ctx w1"
    by (auto simp only: Execute_steps)
  with ok have "fst (orReturn (upsertServiceUser L S p w1) ''failed to upsert service user''
       (fromCredentials L S p ctx)) = None"
    by (simp only: fromServiceUser_def)
  from orReturn_NoneD [OF this] obtain w2 where s2: "upsertServiceUser L S p w1 = (None, w2)"
    and e2: "Execute L S p ctx w = fromCredentials L S p ctx w2"
    unfolding e1 fromServiceUser_def by blast
  with ok have "fst (orReturn (initRPCCredentials S p w2) ''failed to init RPC credentials''
       (fromRoles L S p ctx)) = None"
    by (simp only: fromCredentials_def)
  from orReturn_NoneD [OF this] obtain w3 where s3: "initRPCCredentials S p w2 = (None, w3)"
    and e3: "Execute L S p ctx w = fromRoles L S p ctx w3"
    unfolding e2 fromCredentials_def by blast
  with ok have "fst (orReturn (updateClusterRoles L p w3) ''failed to update RPC credentials''
       (fromDNS L S p ctx)) = None"
    by (simp only: fromRoles_def)
  from orReturn_NoneD [OF this] obtain w4 where s4: "updateClusterRoles L p w3 = (None, w4)"
    and e4: "Execute L S p ctx w = fromDNS L S p ctx w4"
    unfolding e3 fromRoles_def by blast
  with ok have "fst (orReturn (updateClusterDNSConfig L p w4)
       ''failed to update DNS configuration'' (fromDocker L S p ctx)) = None"
    by (simp only: fromDNS_def)
  from orReturn_NoneD [OF this] obtain w5 where s5: "updateClusterDNSConfig L p w4 = (None, w5)"
    and e5: "Execute L S p ctx w = fromDocker L S p ctx w5"
    unfolding e4 fromDNS_def by blast
  with ok have "fst (orReturn (updateDockerConfig L p w5)
       ''failed to update Docker configuration'' (fromPeers L S p ctx)) = None"
    by (simp only: fromDocker_def)
  from orReturn_NoneD [OF this] obtain w6 where s6: "updateDockerConfig L p w5 = (None, w6)"
    and e6: "Execute L S p ctx w = fromPeers L S p ctx w6"
    unfolding e5 fromDocker_def by blast
  with ok have "fst (orReturn (removeInvalidObjectPeers p w6)
       ''failed to clean up object peers'' (fromServer L S p ctx)) = None"
    by (simp only: fromPeers_def)
  from orReturn_NoneD [OF this] obtain w7 where s7: "removeInvalidObjectPeers p w6 = (None, w7)"
    and e7: "Execute L S p ctx w = fromServer L S p ctx w7"
    unfolding e6 fromPeers_def by blast
  have u2: "\<not> OSUser_IsEmpty L (ServiceUser (stored w2))"
    by (rule upsertServiceUser_done [OF K s2 numeric])
  have "stored w3 = stored w2"
    using initRPCCredentials_stored [OF K, of w2] s3 by simp
  moreover have "stored w4 = withRoles p (stored w3)"
    by (rule updateClusterRoles_done [OF K s4])
  moreover have "stored w5 = withDNS L p (stored w4)"
    by (rule updateClusterDNSConfig_done [OF K s5])
  moreover have "stored w6 = withDocker L p (stored w5)"
    by (rule updateDockerConfig_done [OF K s6])
  moreover have "stored w7 = stored w6"
    using removeInvalidObjectPeers_stored [OF K, of w6] s7 by simp
  ultimately have c7: "converged L p (stored w7)"
    using converged_after [OF u2, of p] by simp
  with e7 fromServer_stored [OF K, of ctx w7] show ?thesis by simp
qed

lemma Execute_freshWorld:
  "Execute testLib testSys testPhase () freshWorld = (None, upgradedWorld)"
  by code_simp

text \<open>
  C2 as stated fails. After a run of \<open>Execute\<close> the DNS configuration of the record is
  not empty, and \<open>updateClusterDNSConfig\<close> still calls \<open>UpdateSite\<close>: the call is in the
  log. With a backend that cannot be written it returns the error of that call, and
  so does a second run of \<open>Execute\<close>.
\<close>

theorem updateClusterDNSConfig_writes_counterexample:
  "DNSConfig_IsEmpty testLib (site_DNSConfig (the_site upgradedWorld)) = False
 \<and> GetLocalSite (Backend testPhase) (SystemAccountID testLib) upgradedWorld
     = Inr (the_site upgradedWorld)
 \<and> updateClusterDNSConfig testLib testPhase upgradedWorld
     = (None, called ''UpdateSite'' upgradedWorld)
 \<and> the_calls (called ''UpdateSite'' upgradedWorld) = the_calls upgradedWorld @ [''UpdateSite'']
 \<and> updateClusterDNSConfig testLib (testPhase\<lparr>Backend := readOnlyBackend\<rparr>) upgradedWorld
     = (Some (Wrap (TraceErr ConnectionProblemError ''backend is read-only'' []) []),
        called ''UpdateSite'' upgradedWorld)
 \<and> Execute testLib testSys testPhase () freshWorld = (None, upgradedWorld)
 \<and> fst (Execute testLib testSys (testPhase\<lparr>Backend := readOnlyBackend\<rparr>) () upgradedWorld)
     = Some (Wrap (Wrap (TraceErr ConnectionProblemError ''backend is read-only'' []) [])
               ''failed to update RPC credentials'')"
proof (intro conjI)
  show "DNSConfig_IsEmpty testLib (site_DNSConfig (the_site upgradedWorld)) = False"
    by code_simp
  show "GetLocalSite (Backend testPhase) (SystemAccountID testLib) upgradedWorld
     = Inr (the_site upgradedWorld)"
    by (simp add: testPhase_def testBackend_def)
  show "updateClusterDNSConfig testLib testPhase upgradedWorld
     = (None, called ''UpdateSite'' upgradedWorld)"
    by code_simp
  show "the_calls (called ''UpdateSite'' upgradedWorld) = the_calls upgradedWorld @ [''UpdateSite'']"
    by (simp add: called_def)
  show "updateClusterDNSConfig testLib (testPhase\<lparr>Backend := readOnlyBackend\<rparr>) upgradedWorld
     = (Some (Wrap (TraceErr ConnectionProblemError ''backend is read-only'' []) []),
        called ''UpdateSite'' upgradedWorld)"
    by code_simp
  show "Execute testLib testSys testPhase () freshWorld = (None, upgradedWorld)"
    by (rule Execute_freshWorld)
  show "fst (Execute testLib testSys (testPhase\<lparr>Backend := readOnlyBackend\<rparr>) () upgradedWorld)
     = Some (Wrap (Wrap (TraceErr ConnectionProblemError ''backend is read-only'' []) [])
               ''failed to update RPC credentials'')"
    by code_simp
qed

text \<open>
  C2, amended. When the record read has a service user, \<open>upsertServiceUser\<close> returns
  \<open>nil\<close> and changes nothing; so does \<open>updateDockerConfig\<close> when the record has a Docker
  configuration. When the record has a DNS configuration, \<open>updateClusterDNSConfig\<close>
  writes the record it read, unchanged, through \<open>UpdateSite\<close> and returns the error of
  that write, if any, wrapped. On a backend that keeps the cluster record, \<open>Execute\<close>
  leaves a converged record as it is, and the record after a successful run is
  converged where a user with a UID is not empty: a second run leaves the stored record
  unchanged, whatever it returns.
\<close>

theorem cluster_record_updates_idempotent:
  "(\<forall>c. GetLocalSite (Backend p) (SystemAccountID L) w = Inr c
        \<and> \<not> OSUser_IsEmpty L (ServiceUser c)
      \<longrightarrow> upsertServiceUser L S p w = (None, w))
 \<and> (\<forall>c. GetLocalSite (Backend p) (SystemAccountID L) w = Inr c
        \<and> \<not> DockerConfig_IsEmpty L (Docker (ClusterState c))
      \<longrightarrow> updateDockerConfig L p w = (None, w))
 \<and> (\<forall>c. GetLocalSite (Backend p) (SystemAccountID L) w = Inr c
        \<and> \<not> DNSConfig_IsEmpty L (site_DNSConfig c)
      \<longrightarrow> updateClusterDNSConfig L p w
          = (map_option (\<lambda>err. Wrap err []) (fst (UpdateSite (Backend p) c w)),
             snd (UpdateSite (Backend p) c w)))
 \<and> (keepsRecord L S p stored \<and> converged L p (stored w)
      \<longrightarrow> stored (snd (Execute L S p ctx w)) = stored w)
 \<and> (keepsRecord L S p stored \<and> (\<forall>u. UID u \<noteq> [] \<longrightarrow> \<not> OSUser_IsEmpty L u)
        \<and> fst (Execute L S p ctx w) = None
      \<longrightarrow> stored (snd (Execute L S p ctx (snd (Execute L S p ctx w))))
          = stored (snd (Execute L S p ctx w)))"
proof (intro conjI allI impI)
  fix c
  assume "GetLocalSite (Backend p) (SystemAccountID L) w = Inr c
        \<and> \<not> OSUser_IsEmpty L (ServiceUser c)"
  then show "upsertServiceUser L S p w = (None, w)"
    by (simp add: upsertServiceUser_def)
next
  fix c
  assume "GetLocalSite (Backend p) (SystemAccountID L) w = Inr c
        \<and> \<not> DockerConfig_IsEmpty L (Docker (ClusterState c))"
  then show "updateDockerConfig L p w = (None, w)"
    by (simp add: updateDockerConfig_def)
next
  fix c
  assume "GetLocalSite (Backend p) (SystemAccountID L) w = Inr c
        \<and> \<not> DNSConfig_IsEmpty L (site_DNSConfig c)"
  then show "updateClusterDNSConfig L p w
          = (map_option (\<lambda>err. Wrap err []) (fst (UpdateSite (Backend p) c w)),
             snd (UpdateSite (Backend p) c w))"
    by (simp add: updateClusterDNSConfig_def split: prod.splits option.splits)
next
  assume "keepsRecord L S p stored \<and> converged L p (stored w)"
  then show "stored (snd (Execute L S p ctx w)) = stored w"
    by (simp add: Execute_converged)
next
  assume h: "keepsRecord L S p stored \<and> (\<forall>u. UID u \<noteq> [] \<longrightarrow> \<not> OSUser_IsEmpty L u)
        \<and> fst (Execute L S p ctx w) = None"
  then have "converged L p (stored (snd (Execute L S p ctx w)))"
    by (intro Execute_success_converged) simp_all
  with h show "stored (snd (Execute L S p ctx (snd (Execute L S p ctx w))))
          = stored (snd (Execute L S p ctx w))"
    by (simp add: Execute_converged)
qed

text \<open>The in-memory backend keeps the cluster record.\<close>

lemma testPhase_keepsRecord: "keepsRecord testLib testSys testPhase the_site"
  unfolding keepsRecord_def
  by (simp add: testPhase_def testBackend_def testUsers_def testSys_def testPackages_def
        testServer_def called_def)

text \<open>
  On the in-memory cluster after a run: the service user and the Docker step change
  nothing, the DNS step writes the record back, and a second run leaves the record.
\<close>

theorem cluster_record_updates_idempotent_witness:
  "upsertServiceUser testLib testSys testPhase upgradedWorld = (None, upgradedWorld)
 \<and> updateDockerConfig testLib testPhase upgradedWorld = (None, upgradedWorld)
 \<and> updateClusterDNSConfig testLib testPhase upgradedWorld
     = (None, called ''UpdateSite'' upgradedWorld)
 \<and> the_site (snd (Execute testLib testSys testPhase () upgradedWorld)) = the_site upgradedWorld"
proof -
  have g: "GetLocalSite (Backend testPhase) (SystemAccountID testLib) upgradedWorld
             = Inr (the_site upgradedWorld)"
    by (simp add: testPhase_def testBackend_def)
  have u: "\<not> OSUser_IsEmpty testLib (ServiceUser (the_site upgradedWorld))"
    by code_simp
  have d: "\<not> DockerConfig_IsEmpty testLib (Docker (ClusterState (the_site upgradedWorld)))"
    by code_simp
  have n: "\<not> DNSConfig_IsEmpty testLib (site_DNSConfig (the_site upgradedWorld))"
    by code_simp
  have w: "UpdateSite (Backend testPhase) (the_site upgradedWorld) upgradedWorld
             = (None, called ''UpdateSite'' upgradedWorld)"
    by (simp add: testPhase_def testBackend_def)
  have ok: "fst (Execute testLib testSys testPhase () freshWorld) = None"
    by (simp add: Execute_freshWorld)
  have numeric: "\<forall>u. UID u \<noteq> [] \<longrightarrow> \<not> OSUser_IsEmpty testLib u"
    by (simp add: testLib_def)
  note t = cluster_record_updates_idempotent
  from t [of testPhase testLib upgradedWorld testSys the_site "()"] g u
  have 1: "upsertServiceUser testLib testSys testPhase upgradedWorld = (None, upgradedWorld)"
    by blast
  from t [of testPhase testLib upgradedWorld testSys the_site "()"] g d
  have 2: "updateDockerConfig testLib testPhase upgradedWorld = (None, upgradedWorld)"
    by blast
  from t [of testPhase testLib upgradedWorld testSys the_site "()"] g n
  have "updateClusterDNSConfig testLib testPhase upgradedWorld
          = (map_option (\<lambda>err. Wrap err [])
               (fst (UpdateSite (Backend testPhase) (the_site upgradedWorld) upgradedWorld)),
             snd (UpdateSite (Backend testPhase) (the_site upgradedWorld) upgradedWorld))"
    by blast
  then have 3: "updateClusterDNSConfig testLib testPhase upgradedWorld
     = (None, called ''UpdateSite'' upgradedWorld)"
    unfolding w by simp
  from t [of testPhase testLib freshWorld testSys the_site "()"] testPhase_keepsRecord numeric ok
  have 4: "the_site (snd (Execute testLib testSys testPhase () upgradedWorld))
             = the_site upgradedWorld"
    unfolding Execute_freshWorld snd_conv by blast
  from 1 2 3 4 show ?thesis by simp
qed

end
